theory Spec2Isabelle
  imports Complex_Main "HOL-Library.Sublist"
begin

section \<open>Data model of \<open>edit-github-blob.ts\<close>\<close>

text \<open>
  The module exports one asynchronous function that edits a single file of a GitHub
  repository through an injected API client. Its effects are the requests it sends,
  the clock it reads and the timers it waits for. The model threads an abstract world
  \<open>'w\<close> (the provider and the clock) through the calls and returns, next to the result,
  the list of effects in the order in which they happened.

  JavaScript strings are modelled as \<open>string\<close>. A thrown value is either the
  \<open>new Error(message)\<close> of the module itself or whatever the API client rejected with.
\<close>

type_synonym api_error = string

datatype error = Error string | ApiError api_error

text \<open>\<open>{owner, repo}\<close>: the object spread into every request.\<close>

record repo_ref =
  owner :: string
  repo :: string

text \<open>The fields of the responses that the function reads.\<close>

record repos_get_data =
  default_branch :: string
  permissions_push :: bool

record branch_data =
  protected :: bool
  commit_sha :: string

record fork_data =
  owner_login :: string
  fork_name :: string

record file_data =
  content :: "string option"
  sha :: string

text \<open>
  \<open>repos.getContents\<close> answers with an array of entries for a directory and with a
  single object otherwise; \<open>Array.isArray\<close> tells them apart. The entries of a listing
  are never read, so only their paths are kept.
\<close>

datatype contents_data = Listing "string list" | Item file_data

type_synonym buffer = "nat list"

text \<open>
  The capabilities of the client that the function uses. Each takes the request's
  parameters in the order of the source's object literal and the world, and gives the
  rejection or the response data together with the world after the call.
  \<open>repos.createOrUpdateFile\<close> is read only at \<open>data.commit.html_url\<close> and
  \<open>pulls.create\<close> only at \<open>data.html_url\<close>, so both answer with that URL.
\<close>

record 'w GitHub =
  repos_get :: "repo_ref \<Rightarrow> 'w \<Rightarrow> (api_error + repos_get_data) \<times> 'w"
  repos_getBranch :: "repo_ref \<Rightarrow> string \<Rightarrow> 'w \<Rightarrow> (api_error + branch_data) \<times> 'w"
  repos_createFork :: "repo_ref \<Rightarrow> 'w \<Rightarrow> (api_error + fork_data) \<times> 'w"
  git_createRef :: "repo_ref \<Rightarrow> string \<Rightarrow> string \<Rightarrow> 'w \<Rightarrow> (api_error + unit) \<times> 'w"
  repos_getContents ::
    "repo_ref \<Rightarrow> string \<Rightarrow> string \<Rightarrow> 'w \<Rightarrow> (api_error + contents_data) \<times> 'w"
  repos_createOrUpdateFile ::
    "repo_ref \<Rightarrow> string \<Rightarrow> string \<Rightarrow> string \<Rightarrow> string \<Rightarrow> string \<Rightarrow> 'w
      \<Rightarrow> (api_error + string) \<times> 'w"
  pulls_create ::
    "repo_ref \<Rightarrow> string \<Rightarrow> string \<Rightarrow> string \<Rightarrow> string \<Rightarrow> 'w \<Rightarrow> (api_error + string) \<times> 'w"

text \<open>
  What the function takes from Node and the platform rather than from the repository:
  the clock, the timer, \<open>path.basename\<close> (which depends on the platform's separator) and
  the \<open>Buffer\<close> codecs. They are parameters of the model.
\<close>

record 'w runtime =
  Date_now :: "'w \<Rightarrow> int"
  setTimeout :: "int \<Rightarrow> 'w \<Rightarrow> 'w"
  basename :: "string \<Rightarrow> string"
  Buffer_from_base64 :: "string \<Rightarrow> buffer"
  Buffer_toString_utf8 :: "buffer \<Rightarrow> string"
  Buffer_from_utf8 :: "string \<Rightarrow> buffer"
  Buffer_toString_base64 :: "buffer \<Rightarrow> string"

text \<open>\<open>type Options\<close>; \<open>owner\<close> and \<open>repo\<close> are the fields of \<open>repo_ref\<close>.\<close>

record 'w Options = repo_ref +
  filePath :: string
  branch :: "string option"
  apiClient :: "'w GitHub"
  replace :: "string \<Rightarrow> string"
  commitMessage :: "string option"

text \<open>
  The effects of a run, each request with the answer it got. The parameters of a request
  stand in the order of the source's object literal:
  \<open>GitCreateRef repo ref sha\<close>, \<open>ReposGetContents repo path ref\<close>,
  \<open>ReposCreateOrUpdateFile repo path message content sha branch\<close> and
  \<open>PullsCreate repo base head title body\<close>.
\<close>

datatype event =
    ReposGet repo_ref "api_error + repos_get_data"
  | ReposGetBranch repo_ref string "api_error + branch_data"
  | ReposCreateFork repo_ref "api_error + fork_data"
  | GitCreateRef repo_ref string string "api_error + unit"
  | ReposGetContents repo_ref string string "api_error + contents_data"
  | ReposCreateOrUpdateFile repo_ref string string string string string "api_error + string"
  | PullsCreate repo_ref string string string string "api_error + string"
  | DateNow int
  | SetTimeout int

section \<open>Sequencing: awaited promises\<close>

text \<open>
  An asynchronous computation is a function from the world to its outcome (the thrown
  value or the result), the effects it had and the world it left. \<open>await\<close> is \<open>bind\<close>:
  a rejection leaves the function at once.
\<close>

type_synonym ('w, 'a) promise = "'w \<Rightarrow> (error + 'a) \<times> event list \<times> 'w"

definition resolve :: "'a \<Rightarrow> ('w, 'a) promise" where
  "resolve v = (\<lambda>w. (Inr v, [], w))"

definition throw :: "error \<Rightarrow> ('w, 'a) promise" where
  "throw err = (\<lambda>w. (Inl err, [], w))"

definition await :: "('w, 'a) promise \<Rightarrow> ('a \<Rightarrow> ('w, 'b) promise) \<Rightarrow> ('w, 'b) promise" where
  "await p k = (\<lambda>w.
     case p w of
       (Inl err, evs, w') \<Rightarrow> (Inl err, evs, w')
     | (Inr v, evs, w') \<Rightarrow> (case k v w' of (r, evs', w'') \<Rightarrow> (r, evs @ evs', w'')))"

text \<open>\<open>Date.now()\<close>: reading the clock, recorded with the value read.\<close>

definition now :: "'w runtime \<Rightarrow> ('w, int) promise" where
  "now rt = (\<lambda>w. (Inr (Date_now rt w), [DateNow (Date_now rt w)], w))"

text \<open>One request to the client, recorded with its answer.\<close>

definition request ::
    "('w \<Rightarrow> (api_error + 'a) \<times> 'w) \<Rightarrow> ((api_error + 'a) \<Rightarrow> event) \<Rightarrow> ('w, 'a) promise" where
  "request call ev = (\<lambda>w.
     case call w of
       (Inl e, w') \<Rightarrow> (Inl (ApiError e), [ev (Inl e)], w')
     | (Inr v, w') \<Rightarrow> (Inr v, [ev (Inr v)], w'))"

section \<open>JavaScript library functions used by the module\<close>

text \<open>Truthiness of an optional string: \<open>undefined\<close> and \<open>''\<close> are falsy.\<close>

fun truthy :: "string option \<Rightarrow> bool" where
  "truthy None = False"
| "truthy (Some s) = (s \<noteq> [])"

text \<open>\<open>Math.round\<close>: the nearest integer, a half rounded up.\<close>

definition Math_round :: "real \<Rightarrow> int" where
  "Math_round x = \<lfloor>x + 1 / 2\<rfloor>"

text \<open>The decimal rendering of an integral number, as a template literal inserts it.\<close>

fun digits :: "nat \<Rightarrow> string" where
  "digits n =
     (if n < 10 then [''0123456789'' ! n]
      else digits (n div 10) @ [''0123456789'' ! (n mod 10)])"

definition Number_toString :: "int \<Rightarrow> string" where
  "Number_toString i = (if i < 0 then CHR ''-'' # digits (nat (- i)) else digits (nat i))"

text \<open>
  \<open>String.prototype.split\<close> with a string separator: the pieces between the
  occurrences of the separator, found from left to right without overlap. \<open>acc\<close> holds
  the current piece, reversed. An empty separator cuts between all characters.
\<close>

function split_from :: "string \<Rightarrow> string \<Rightarrow> string \<Rightarrow> string list" where
  "split_from sep acc [] = [rev acc]"
| "split_from sep acc (c # cs) =
     (if sep \<noteq> [] \<and> prefix sep (c # cs)
      then rev acc # split_from sep [] (drop (length sep) (c # cs))
      else split_from sep (c # acc) cs)"
  by pat_completeness auto
termination
  by (relation "measure (\<lambda>(sep, acc, s). length s)") auto

definition split :: "string \<Rightarrow> string \<Rightarrow> string list" where
  "split s sep = (if sep = [] then map (\<lambda>c. [c]) s else split_from sep [] s)"

text \<open>\<open>Array.prototype.join\<close>.\<close>

fun join :: "string list \<Rightarrow> string \<Rightarrow> string" where
  "join [] sep = []"
| "join [x] sep = x"
| "join (x # y # ys) sep = x @ sep @ join (y # ys) sep"

section \<open>The module\<close>

text \<open>
  \<open>retry\<close>: run \<open>fn\<close>; when it rejects and \<open>times > 0\<close>, wait \<open>delay\<close> milliseconds and
  retry with \<open>times - 1\<close>; otherwise rethrow. The source's parameter \<open>times\<close> is \<open>n\<close> here
  (\<open>times\<close> is the name of HOL's multiplication).
\<close>

function retry ::
    "'w runtime \<Rightarrow> int \<Rightarrow> int \<Rightarrow> ('w, 'a) promise \<Rightarrow> ('w, 'a) promise" where
  "retry rt n delay fn w =
     (case fn w of
        (Inr v, evs, w') \<Rightarrow> (Inr v, evs, w')
      | (Inl err, evs, w') \<Rightarrow>
          if n > 0
          then (case retry rt (n - 1) delay fn (setTimeout rt delay w') of
                  (r, evs', w'') \<Rightarrow> (r, evs @ SetTimeout delay # evs', w''))
          else (Inl err, evs, w'))"
  by pat_completeness auto
termination
  by (relation "measure (\<lambda>(rt, n, delay, fn, w). nat n)") auto

text \<open>
  The exported function (lines 33 to 121), statement by statement: each \<open>await\<close> of the
  source is an \<open>await\<close> here, each \<open>const\<close> a \<open>let\<close>, and the two variables that are
  assigned in a conditional (\<open>headRepo\<close>, \<open>headBranch\<close>) are the results of the
  conditional. \<open>split\<close> on a non-empty separator never gives the empty array, so
  \<open>parts[0]\<close> is \<open>hd parts\<close>.
\<close>

definition edit_github_blob :: "'w runtime \<Rightarrow> 'w Options \<Rightarrow> ('w, string) promise" where
  "edit_github_blob rt params =
    (let baseRepo = \<lparr>owner = owner params, repo = repo params\<rparr>;
         filePath = filePath params;
         api = apiClient params
     in
     await (request (repos_get api baseRepo) (ReposGet baseRepo)) (\<lambda>repoRes.
     let baseBranch = (if truthy (branch params) then the (branch params)
                       else default_branch repoRes)
     in
     await (request (repos_getBranch api baseRepo baseBranch)
              (ReposGetBranch baseRepo baseBranch)) (\<lambda>branchRes.
     let needsFork = (\<not> permissions_push repoRes) in
     await (if needsFork
            then await (request (repos_createFork api baseRepo) (ReposCreateFork baseRepo))
                   (\<lambda>forkRes. resolve \<lparr>owner = owner_login forkRes, repo = fork_name forkRes\<rparr>)
            else resolve baseRepo) (\<lambda>headRepo.
     let needsPr = (needsFork \<or> protected branchRes) in
     await (if needsPr
            then await (now rt) (\<lambda>ms.
                   let timestamp = Math_round (real_of_int ms / 1000)
                   in resolve (''update-'' @ basename rt filePath @ ''-''
                                 @ Number_toString timestamp))
            else resolve baseBranch) (\<lambda>headBranch.
     await (if needsPr
            then retry rt (if needsFork then 6 else 0) 5000
                   (request (git_createRef api headRepo (''refs/heads/'' @ headBranch)
                               (commit_sha branchRes))
                      (GitCreateRef headRepo (''refs/heads/'' @ headBranch)
                         (commit_sha branchRes)))
            else resolve ()) (\<lambda>_.
     await (request (repos_getContents api headRepo filePath headBranch)
              (ReposGetContents headRepo filePath headBranch)) (\<lambda>fileData.
     case fileData of
       Listing entries \<Rightarrow>
         throw (Error (''expected '' @ [CHR 0x27] @ filePath @ [CHR 0x27]
                         @ '' is a file, got a directory''))
     | Item fileData \<Rightarrow>
         let content = (if truthy (content fileData) then the (content fileData) else '''');
             contentBuf = Buffer_from_base64 rt content;
             oldContent = Buffer_toString_utf8 rt contentBuf;
             newContent = replace params oldContent
         in
         if newContent = oldContent then throw (Error ''no replacements ocurred'')
         else
           let commitMessage = (if truthy (commitMessage params)
                                then the (commitMessage params)
                                else ''Update '' @ filePath)
           in
           await (request (repos_createOrUpdateFile api headRepo filePath commitMessage
                             (Buffer_toString_base64 rt (Buffer_from_utf8 rt newContent))
                             (sha fileData) headBranch)
                    (ReposCreateOrUpdateFile headRepo filePath commitMessage
                       (Buffer_toString_base64 rt (Buffer_from_utf8 rt newContent))
                       (sha fileData) headBranch)) (\<lambda>commitRes.
           if needsPr
           then
             let parts = split commitMessage ''\<newline>\<newline>'';
                 title = hd parts;
                 body = join (tl parts) ''\<newline>\<newline>''
             in
             await (request (pulls_create api baseRepo baseBranch
                               (owner headRepo @ '':'' @ headBranch) title body)
                      (PullsCreate baseRepo baseBranch
                         (owner headRepo @ '':'' @ headBranch) title body)) (\<lambda>prRes.
             resolve prRes)
           else resolve commitRes))))))))"

section \<open>Names for the values and requests of a run\<close>

text \<open>
  The local constants of the exported function, as functions of the parameters and of
  the answers they are computed from. The theorems below are stated with them;
  \<open>run_shape\<close> proves that the function computes exactly these.
\<close>

text \<open>\<open>baseRepo\<close> (lines 34 to 37).\<close>

definition baseRepo_of :: "'w Options \<Rightarrow> repo_ref" where
  "baseRepo_of params = \<lparr>owner = owner params, repo = repo params\<rparr>"

text \<open>\<open>baseBranch\<close> (line 43): the caller's branch if it is truthy, else the default branch.\<close>

definition baseBranch_of :: "'w Options \<Rightarrow> repos_get_data \<Rightarrow> string" where
  "baseBranch_of params repoRes =
     (if truthy (branch params) then the (branch params) else default_branch repoRes)"

text \<open>\<open>needsFork\<close> (line 50) and \<open>needsPr\<close> (line 59).\<close>

definition needsFork :: "repos_get_data \<Rightarrow> bool" where
  "needsFork repoRes = (\<not> permissions_push repoRes)"

definition needsPr :: "repos_get_data \<Rightarrow> branch_data \<Rightarrow> bool" where
  "needsPr repoRes branchRes = (needsFork repoRes \<or> protected branchRes)"

text \<open>\<open>headRepo\<close> after line 57: the fork if one was made, else the base repository.\<close>

definition headRepo_of :: "'w Options \<Rightarrow> repos_get_data \<Rightarrow> fork_data \<Rightarrow> repo_ref" where
  "headRepo_of params repoRes forkRes =
     (if needsFork repoRes then \<lparr>owner = owner_login forkRes, repo = fork_name forkRes\<rparr>
      else baseRepo_of params)"

text \<open>
  \<open>headBranch\<close> after line 63, \<open>ms\<close> being what \<open>Date.now()\<close> returned. A number
  prints as its decimal digits here, which JavaScript does for every integer of fewer
  than 22 digits.
\<close>

definition headBranch_of ::
    "'w runtime \<Rightarrow> 'w Options \<Rightarrow> repos_get_data \<Rightarrow> branch_data \<Rightarrow> int \<Rightarrow> string" where
  "headBranch_of rt params repoRes branchRes ms =
     (if needsPr repoRes branchRes
      then ''update-'' @ basename rt (filePath params) @ ''-''
             @ Number_toString (Math_round (real_of_int ms / 1000))
      else baseBranch_of params repoRes)"

text \<open>\<open>oldContent\<close> (lines 84 to 87) and the \<open>content\<close> sent with the commit (line 100).\<close>

definition oldContent_of :: "'w runtime \<Rightarrow> file_data \<Rightarrow> string" where
  "oldContent_of rt fileData =
     Buffer_toString_utf8 rt (Buffer_from_base64 rt
       (if truthy (content fileData) then the (content fileData) else ''''))"

definition newContent_base64 :: "'w runtime \<Rightarrow> 'w Options \<Rightarrow> file_data \<Rightarrow> string" where
  "newContent_base64 rt params fileData =
     Buffer_toString_base64 rt (Buffer_from_utf8 rt (replace params (oldContent_of rt fileData)))"

text \<open>\<open>commitMessage\<close> (lines 93 to 95), and \<open>title\<close> and \<open>body\<close> (lines 106 to 108).\<close>

definition commitMessage_of :: "'w Options \<Rightarrow> string" where
  "commitMessage_of params =
     (if truthy (commitMessage params) then the (commitMessage params)
      else ''Update '' @ filePath params)"

definition title_of :: "string \<Rightarrow> string" where
  "title_of message = hd (split message ''\<newline>\<newline>'')"

definition body_of :: "string \<Rightarrow> string" where
  "body_of message = join (tl (split message ''\<newline>\<newline>'')) ''\<newline>\<newline>''"

text \<open>The two errors that the function throws itself (lines 82 and 90).\<close>

definition not_a_file :: "string \<Rightarrow> error" where
  "not_a_file path =
     Error (''expected '' @ [CHR 0x27] @ path @ [CHR 0x27] @ '' is a file, got a directory'')"

definition no_change :: error where
  "no_change = Error ''no replacements ocurred''"

text \<open>
  The effects of the ref creation, given the answers to its attempts: the attempts with
  a wait of 5000 ms between two of them.
\<close>

fun intersperse :: "'a \<Rightarrow> 'a list \<Rightarrow> 'a list" where
  "intersperse s [] = []"
| "intersperse s [x] = [x]"
| "intersperse s (x # y # ys) = x # s # intersperse s (y # ys)"

definition ref_events ::
    "repo_ref \<Rightarrow> string \<Rightarrow> string \<Rightarrow> (api_error + unit) list \<Rightarrow> event list" where
  "ref_events headRepo headBranch commitSha answers =
     intersperse (SetTimeout 5000)
       (map (GitCreateRef headRepo (''refs/heads/'' @ headBranch) commitSha) answers)"

text \<open>
  The effects up to and including the ref creation (lines 42 to 73), given the answers:
  the two look-ups, the fork if one is needed, and, if a pull request is needed, the
  clock reading and the ref creation.
\<close>

definition start_events ::
    "'w runtime \<Rightarrow> 'w Options \<Rightarrow> repos_get_data \<Rightarrow> branch_data \<Rightarrow> fork_data \<Rightarrow> int
      \<Rightarrow> (api_error + unit) list \<Rightarrow> event list" where
  "start_events rt params repoRes branchRes forkRes ms answers =
     [ReposGet (baseRepo_of params) (Inr repoRes),
      ReposGetBranch (baseRepo_of params) (baseBranch_of params repoRes) (Inr branchRes)]
     @ (if needsFork repoRes then [ReposCreateFork (baseRepo_of params) (Inr forkRes)] else [])
     @ (if needsPr repoRes branchRes
        then DateNow ms
               # ref_events (headRepo_of params repoRes forkRes)
                   (headBranch_of rt params repoRes branchRes ms) (commit_sha branchRes) answers
        else [])"

text \<open>The requests of lines 75 to 79, 96 to 103 and 110 to 116, with their answers.\<close>

definition fetch_event ::
    "'w runtime \<Rightarrow> 'w Options \<Rightarrow> repos_get_data \<Rightarrow> branch_data \<Rightarrow> fork_data \<Rightarrow> int
      \<Rightarrow> api_error + contents_data \<Rightarrow> event" where
  "fetch_event rt params repoRes branchRes forkRes ms answer =
     ReposGetContents (headRepo_of params repoRes forkRes) (filePath params)
       (headBranch_of rt params repoRes branchRes ms) answer"

definition commit_event ::
    "'w runtime \<Rightarrow> 'w Options \<Rightarrow> repos_get_data \<Rightarrow> branch_data \<Rightarrow> fork_data \<Rightarrow> int
      \<Rightarrow> file_data \<Rightarrow> api_error + string \<Rightarrow> event" where
  "commit_event rt params repoRes branchRes forkRes ms fileData answer =
     ReposCreateOrUpdateFile (headRepo_of params repoRes forkRes) (filePath params)
       (commitMessage_of params) (newContent_base64 rt params fileData) (sha fileData)
       (headBranch_of rt params repoRes branchRes ms) answer"

definition pull_event ::
    "'w runtime \<Rightarrow> 'w Options \<Rightarrow> repos_get_data \<Rightarrow> branch_data \<Rightarrow> fork_data \<Rightarrow> int
      \<Rightarrow> api_error + string \<Rightarrow> event" where
  "pull_event rt params repoRes branchRes forkRes ms answer =
     PullsCreate (baseRepo_of params) (baseBranch_of params repoRes)
       (owner (headRepo_of params repoRes forkRes) @ '':''
          @ headBranch_of rt params repoRes branchRes ms)
       (title_of (commitMessage_of params)) (body_of (commitMessage_of params)) answer"

text \<open>
  The first argument of the call of \<open>retry\<close> (line 66), and what the answers to the
  attempts look like when the ref creation has gone through: the last attempt
  succeeded, the ones before it were rejected, and there were no more than the retries
  allow.
\<close>

definition retries :: "repos_get_data \<Rightarrow> nat" where
  "retries repoRes = (if needsFork repoRes then 6 else 0)"

definition refs_created :: "repos_get_data \<Rightarrow> branch_data \<Rightarrow> (api_error + unit) list \<Rightarrow> bool" where
  "refs_created repoRes branchRes answers =
     (if needsPr repoRes branchRes
      then answers \<noteq> [] \<and> last answers = Inr () \<and> (\<forall>x \<in> set (butlast answers). isl x)
           \<and> length answers \<le> retries repoRes + 1
      else True)"

section \<open>Observations on the effects of a run\<close>

text \<open>The result of a run and the list of its effects.\<close>

definition result :: "(error + 'a) \<times> event list \<times> 'w \<Rightarrow> error + 'a" where
  "result outcome = fst outcome"

definition events :: "(error + 'a) \<times> event list \<times> 'w \<Rightarrow> event list" where
  "events outcome = fst (snd outcome)"

text \<open>The requests that change something at the provider.\<close>

fun is_write :: "event \<Rightarrow> bool" where
  "is_write (ReposCreateFork _ _) = True"
| "is_write (GitCreateRef _ _ _ _) = True"
| "is_write (ReposCreateOrUpdateFile _ _ _ _ _ _ _) = True"
| "is_write (PullsCreate _ _ _ _ _ _) = True"
| "is_write _ = False"

fun is_commit_or_pull :: "event \<Rightarrow> bool" where
  "is_commit_or_pull (ReposCreateOrUpdateFile _ _ _ _ _ _ _) = True"
| "is_commit_or_pull (PullsCreate _ _ _ _ _ _) = True"
| "is_commit_or_pull _ = False"



text \<open>The repository that a request on the head branch is addressed to.\<close>

fun head_repo :: "event \<Rightarrow> repo_ref option" where
  "head_repo (GitCreateRef headRepo _ _ _) = Some headRepo"
| "head_repo (ReposGetContents headRepo _ _ _) = Some headRepo"
| "head_repo (ReposCreateOrUpdateFile headRepo _ _ _ _ _ _) = Some headRepo"
| "head_repo _ = None"

section \<open>A simulated provider and runtime for concrete runs\<close>

text \<open>
  The world of the simulation: a clock in milliseconds and the number of ref creations
  that the provider will still reject (a fresh fork whose refs are not writable yet).
\<close>

record sim =
  clock :: int
  ref_failures :: nat

text \<open>POSIX \<open>path.basename\<close>: the last segment of the path, trailing slashes ignored.\<close>

definition posix_basename :: "string \<Rightarrow> string" where
  "posix_basename p =
     rev (takeWhile (\<lambda>c. c \<noteq> CHR ''/'') (dropWhile (\<lambda>c. c = CHR ''/'') (rev p)))"

text \<open>
  Base64 over the standard alphabet. Decoding skips every character outside the
  alphabet (line breaks and padding); text is taken byte for byte, which is UTF-8 for
  7-bit text.
\<close>

definition base64_alphabet :: string where
  "base64_alphabet = ''ABCDEFGHIJKLMNOPQRSTUVWXYZabcdefghijklmnopqrstuvwxyz0123456789+/''"

fun index_of :: "char \<Rightarrow> string \<Rightarrow> nat option" where
  "index_of c [] = None"
| "index_of c (x # xs) = (if c = x then Some 0 else map_option Suc (index_of c xs))"

fun from_sextets :: "nat list \<Rightarrow> buffer" where
  "from_sextets (a # b # c # d # rest) =
     [a * 4 + b div 16, (b mod 16) * 16 + c div 4, (c mod 4) * 64 + d] @ from_sextets rest"
| "from_sextets [a, b, c] = [a * 4 + b div 16, (b mod 16) * 16 + c div 4]"
| "from_sextets [a, b] = [a * 4 + b div 16]"
| "from_sextets _ = []"

definition base64_decode :: "string \<Rightarrow> buffer" where
  "base64_decode s = from_sextets (List.map_filter (\<lambda>c. index_of c base64_alphabet) s)"

fun base64_encode :: "buffer \<Rightarrow> string" where
  "base64_encode (x # y # z # rest) =
     [base64_alphabet ! (x div 4), base64_alphabet ! ((x mod 4) * 16 + y div 16),
      base64_alphabet ! ((y mod 16) * 4 + z div 64), base64_alphabet ! (z mod 64)]
     @ base64_encode rest"
| "base64_encode [x, y] =
     [base64_alphabet ! (x div 4), base64_alphabet ! ((x mod 4) * 16 + y div 16),
      base64_alphabet ! ((y mod 16) * 4), CHR ''='']"
| "base64_encode [x] =
     [base64_alphabet ! (x div 4), base64_alphabet ! ((x mod 4) * 16), CHR ''='', CHR ''='']"
| "base64_encode [] = []"

definition node :: "sim runtime" where
  "node = \<lparr>Date_now = clock,
           setTimeout = (\<lambda>delay w. w\<lparr>clock := clock w + delay\<rparr>),
           basename = posix_basename,
           Buffer_from_base64 = base64_decode,
           Buffer_toString_utf8 = map char_of,
           Buffer_from_utf8 = map of_char,
           Buffer_toString_base64 = base64_encode\<rparr>"

text \<open>
  A provider with fixed answers: whether the credential may push, whether the branch is
  protected, and what lies at the path. Ref creation is rejected while the world says so;
  every other request succeeds.
\<close>

definition provider :: "bool \<Rightarrow> bool \<Rightarrow> contents_data \<Rightarrow> sim GitHub" where
  "provider push prot contents =
     \<lparr>repos_get = (\<lambda>r w. (Inr \<lparr>default_branch = ''master'', permissions_push = push\<rparr>, w)),
      repos_getBranch = (\<lambda>r b w. (Inr \<lparr>protected = prot, commit_sha = ''c0ffee''\<rparr>, w)),
      repos_createFork = (\<lambda>r w. (Inr \<lparr>owner_login = ''bot'', fork_name = repo r\<rparr>, w)),
      git_createRef = (\<lambda>r ref s w.
        if ref_failures w > 0
        then (Inl ''Reference update failed'', w\<lparr>ref_failures := ref_failures w - 1\<rparr>)
        else (Inr (), w)),
      repos_getContents = (\<lambda>r p ref w. (Inr contents, w)),
      repos_createOrUpdateFile = (\<lambda>r p m c s b w.
        (Inr (''https://github.com/'' @ owner r @ ''/'' @ repo r @ ''/commit/1''), w)),
      pulls_create = (\<lambda>r b h t d w.
        (Inr (''https://github.com/'' @ owner r @ ''/'' @ repo r @ ''/pull/1''), w))\<rparr>"

definition exclaim :: "string \<Rightarrow> string" where
  "exclaim s = s @ ''!''"

definition hello :: file_data where
  "hello = \<lparr>content = Some ''aGVsbG8='', sha = ''abc''\<rparr>"

definition formula ::
    "bool \<Rightarrow> bool \<Rightarrow> contents_data \<Rightarrow> (string \<Rightarrow> string) \<Rightarrow> string option \<Rightarrow> sim Options" where
  "formula push prot contents f message =
     \<lparr>owner = ''Homebrew'', repo = ''homebrew-core'', filePath = ''Formula/hello.rb'',
      branch = None, apiClient = provider push prot contents, replace = f,
      commitMessage = message\<rparr>"

definition world :: "int \<Rightarrow> nat \<Rightarrow> sim" where
  "world ms failures = \<lparr>clock = ms, ref_failures = failures\<rparr>"

section \<open>Sequencing lemmas\<close>

declare retry.simps [simp del] digits.simps [simp del]

lemma result_simp [simp]: "result (r, evs, w) = r"
  by (simp add: result_def)

lemma events_simp [simp]: "events (r, evs, w) = evs"
  by (simp add: events_def)

lemma await_elim:
  assumes "await p k w = (res, evs, w')"
  obtains (fail) e where "p w = (Inl e, evs, w')" "res = Inl e"
  | (ok) v evs1 w1 evs2 where
      "p w = (Inr v, evs1, w1)" "k v w1 = (res, evs2, w')" "evs = evs1 @ evs2"
  using assms by (auto simp: await_def split: prod.splits sum.splits)

lemma await_request_elim:
  assumes "await (request call ev) k w = (res, evs, w')"
  obtains (rej) e where "call w = (Inl e, w')" "res = Inl (ApiError e)" "evs = [ev (Inl e)]"
  | (ans) v w1 evs2 where
      "call w = (Inr v, w1)" "k v w1 = (res, evs2, w')" "evs = ev (Inr v) # evs2"
  using assms by (auto simp: await_def request_def split: prod.splits sum.splits)

lemma fork_step:
  assumes "(if c then await (request call ev) (\<lambda>v. resolve (g v)) else resolve x) w
             = (res, evs, w')"
  obtains (rej) e where "c" "res = Inl (ApiError e)" "evs = [ev (Inl e)]"
  | (ans) v where "c" "res = Inr (g v)" "evs = [ev (Inr v)]"
  | (skip) "\<not> c" "res = Inr x" "evs = []"
  using assms
  by (cases c) (auto simp: await_def request_def resolve_def split: prod.splits sum.splits)

lemma name_step:
  assumes "(if c then await (now rt) (\<lambda>ms. resolve (h ms)) else resolve x) w = (res, evs, w')"
  obtains (synth) "c" "res = Inr (h (Date_now rt w))" "evs = [DateNow (Date_now rt w)]"
  | (reuse) "\<not> c" "res = Inr x" "evs = []"
  using assms
  by (cases c) (auto simp: await_def now_def resolve_def split: prod.splits sum.splits)

lemma pull_step:
  assumes "(if c then await (request call ev) resolve else resolve x) w = (res, evs, w')"
  obtains (rej) e where "c" "res = Inl (ApiError e)" "evs = [ev (Inl e)]"
  | (ans) v where "c" "res = Inr v" "evs = [ev (Inr v)]"
  | (skip) "\<not> c" "res = Inr x" "evs = []"
  using assms
  by (cases c) (auto simp: await_def request_def resolve_def split: prod.splits sum.splits)

section \<open>The retry helper\<close>

lemma intersperse_Cons: "ys \<noteq> [] \<Longrightarrow> intersperse s (x # ys) = x # s # intersperse s ys"
  by (cases ys) simp_all

lemma set_intersperse: "set (intersperse s xs) \<subseteq> insert s (set xs)"
  by (induction s xs rule: intersperse.induct) auto

text \<open>
  The attempts of \<open>retry\<close> on a single request: the answers \<open>rs\<close> it got, every one but
  the last a rejection, a delay between two attempts, at most \<open>n + 1\<close> attempts, and
  exactly \<open>n + 1\<close> when the last is a rejection too, which is then rethrown.
\<close>

lemma retry_request:
  assumes "retry rt n d (request call ev) w = (res, evs, w')"
  shows "\<exists>rs. rs \<noteq> [] \<and> evs = intersperse (SetTimeout d) (map ev rs)
           \<and> (\<forall>x \<in> set (butlast rs). isl x)
           \<and> int (length rs) \<le> max 0 n + 1
           \<and> (case last rs of
                 Inl e \<Rightarrow> res = Inl (ApiError e) \<and> int (length rs) = max 0 n + 1
               | Inr v \<Rightarrow> res = Inr v)"
  using assms
proof (induction "nat n" arbitrary: n w res evs w')
  case 0
  then have n: "\<not> 0 < n" by simp
  obtain x w1 where c: "call w = (x, w1)" by (cases "call w")
  show ?case
  proof (cases x)
    case (Inl e)
    with c n "0.prems" have "res = Inl (ApiError e)" "evs = [ev (Inl e)]"
      by (simp_all add: retry.simps[of rt n] request_def)
    with n show ?thesis
      by (intro exI[of _ "[Inl e]"]) simp
  next
    case (Inr v)
    with c "0.prems" have "res = Inr v" "evs = [ev (Inr v)]"
      by (simp_all add: retry.simps[of rt n] request_def)
    then show ?thesis
      by (intro exI[of _ "[Inr v]"]) simp
  qed
next
  case (Suc k)
  then have n: "0 < n" and k: "k = nat (n - 1)" by simp_all
  obtain x w1 where c: "call w = (x, w1)" by (cases "call w")
  show ?case
  proof (cases x)
    case (Inl e)
    obtain r2 evs2 w2
      where r: "retry rt (n - 1) d (request call ev) (setTimeout rt d w1) = (r2, evs2, w2)"
      by (cases "retry rt (n - 1) d (request call ev) (setTimeout rt d w1)")
    from Suc.hyps(1)[OF k r] obtain rs where rs: "rs \<noteq> []"
        "evs2 = intersperse (SetTimeout d) (map ev rs)"
        "\<forall>x \<in> set (butlast rs). isl x" "int (length rs) \<le> max 0 (n - 1) + 1"
        "case last rs of
           Inl e \<Rightarrow> r2 = Inl (ApiError e) \<and> int (length rs) = max 0 (n - 1) + 1
         | Inr v \<Rightarrow> r2 = Inr v"
      by blast
    from Inl c n r Suc.prems have "res = r2" "evs = ev (Inl e) # SetTimeout d # evs2"
      by (simp_all add: retry.simps[of rt n] request_def)
    with rs n Inl show ?thesis
      by (intro exI[of _ "Inl e # rs"]) (auto simp: intersperse_Cons split: sum.splits)
  next
    case (Inr v)
    with c Suc.prems have "res = Inr v" "evs = [ev (Inr v)]"
      by (simp_all add: retry.simps[of rt n] request_def)
    then show ?thesis
      by (intro exI[of _ "[Inr v]"]) simp
  qed
qed

lemma retry_elim:
  assumes "retry rt n d (request call ev) w = (res, evs, w')" and "0 \<le> n"
  obtains (exhausted) rs e where "rs \<noteq> []" "evs = intersperse (SetTimeout d) (map ev rs)"
      "\<forall>x \<in> set rs. isl x" "last rs = Inl e" "length rs = nat n + 1" "res = Inl (ApiError e)"
  | (succeeded) rs v where "rs \<noteq> []" "evs = intersperse (SetTimeout d) (map ev rs)"
      "\<forall>x \<in> set (butlast rs). isl x" "last rs = Inr v" "length rs \<le> nat n + 1" "res = Inr v"
proof -
  from retry_request[OF assms(1)] obtain rs where rs: "rs \<noteq> []"
      "evs = intersperse (SetTimeout d) (map ev rs)" "\<forall>x \<in> set (butlast rs). isl x"
      "int (length rs) \<le> max 0 n + 1"
      "case last rs of Inl e \<Rightarrow> res = Inl (ApiError e) \<and> int (length rs) = max 0 n + 1
       | Inr v \<Rightarrow> res = Inr v"
    by blast
  show thesis
  proof (cases "last rs")
    case (Inl e)
    have "rs = butlast rs @ [last rs]" using rs(1) by simp
    then have "set rs = insert (last rs) (set (butlast rs))"
      by (metis Un_insert_right list.simps(15) set_append sup_bot.right_neutral empty_set)
    with rs Inl have "\<forall>x \<in> set rs. isl x" by simp
    moreover from rs Inl assms(2) have "length rs = nat n + 1" "res = Inl (ApiError e)" by auto
    ultimately show thesis using rs Inl by (intro exhausted[of rs e])
  next
    case (Inr v)
    with rs assms(2) have "length rs \<le> nat n + 1" "res = Inr v" by auto
    then show thesis using rs Inr by (intro succeeded[of rs v])
  qed
qed

lemma ref_step:
  assumes "(if c then retry rt (if c' then 6 else 0) d (request call ev) else resolve ()) w
             = (res, evs, w')"
  obtains (exhausted) rs e where "c" "rs \<noteq> []" "evs = intersperse (SetTimeout d) (map ev rs)"
      "\<forall>x \<in> set rs. isl x" "last rs = Inl e" "length rs = (if c' then 6 else 0) + 1"
      "res = Inl (ApiError e)"
  | (succeeded) rs where "c" "rs \<noteq> []" "evs = intersperse (SetTimeout d) (map ev rs)"
      "\<forall>x \<in> set (butlast rs). isl x" "last rs = Inr ()"
      "length rs \<le> (if c' then 6 else 0) + 1" "res = Inr ()"
  | (skip) "\<not> c" "res = Inr ()" "evs = []"
proof (cases c)
  case True
  with assms have "retry rt (if c' then 6 else 0) d (request call ev) w = (res, evs, w')"
    by simp
  moreover have "(0::int) \<le> (if c' then 6 else 0)" by simp
  ultimately show thesis
  proof (cases rule: retry_elim)
    case (exhausted rs e)
    with True show ?thesis by (intro that(1)[of rs e]) (simp_all split: if_splits)
  next
    case (succeeded rs v)
    with True show ?thesis by (intro that(2)[of rs]) (simp_all split: if_splits)
  qed
next
  case False
  with assms show thesis by (intro skip) (simp_all add: resolve_def)
qed

section \<open>The shape of a run\<close>

lemmas vocabulary =
  baseRepo_of_def baseBranch_of_def needsFork_def needsPr_def headRepo_of_def headBranch_of_def
  oldContent_of_def newContent_base64_def commitMessage_of_def title_of_def body_of_def
  not_a_file_def no_change_def ref_events_def start_events_def fetch_event_def commit_event_def
  pull_event_def retries_def refs_created_def

text \<open>
  Every run of the exported function ends in one of eleven ways, each with its result
  and the exact list of its effects. The proof follows the function from one \<open>await\<close>
  to the next.
\<close>

lemma run_shape:
  assumes run: "edit_github_blob rt params w = (res, evs, w')"
  obtains
    (repos_get_rejected) e where
      "res = Inl (ApiError e)"
      "evs = [ReposGet (baseRepo_of params) (Inl e)]"
  | (getBranch_rejected) r e where
      "res = Inl (ApiError e)"
      "evs = [ReposGet (baseRepo_of params) (Inr r),
              ReposGetBranch (baseRepo_of params) (baseBranch_of params r) (Inl e)]"
  | (createFork_rejected) r b e where
      "needsFork r"
      "res = Inl (ApiError e)"
      "evs = [ReposGet (baseRepo_of params) (Inr r),
              ReposGetBranch (baseRepo_of params) (baseBranch_of params r) (Inr b),
              ReposCreateFork (baseRepo_of params) (Inl e)]"
  | (createRef_rejected) r b f ms rs e where
      "needsPr r b" "rs \<noteq> []" "\<forall>x \<in> set rs. isl x" "last rs = Inl e"
      "length rs = retries r + 1"
      "res = Inl (ApiError e)"
      "evs = start_events rt params r b f ms rs"
  | (getContents_rejected) r b f ms rs e where
      "refs_created r b rs"
      "res = Inl (ApiError e)"
      "evs = start_events rt params r b f ms rs @ [fetch_event rt params r b f ms (Inl e)]"
  | (directory) r b f ms rs entries where
      "refs_created r b rs"
      "res = Inl (not_a_file (filePath params))"
      "evs = start_events rt params r b f ms rs
               @ [fetch_event rt params r b f ms (Inr (Listing entries))]"
  | (unchanged) r b f ms rs fd where
      "refs_created r b rs"
      "replace params (oldContent_of rt fd) = oldContent_of rt fd"
      "res = Inl no_change"
      "evs = start_events rt params r b f ms rs
               @ [fetch_event rt params r b f ms (Inr (Item fd))]"
  | (commit_rejected) r b f ms rs fd e where
      "refs_created r b rs"
      "replace params (oldContent_of rt fd) \<noteq> oldContent_of rt fd"
      "res = Inl (ApiError e)"
      "evs = start_events rt params r b f ms rs
               @ [fetch_event rt params r b f ms (Inr (Item fd)),
                  commit_event rt params r b f ms fd (Inl e)]"
  | (committed) r b f ms rs fd url where
      "\<not> needsPr r b"
      "replace params (oldContent_of rt fd) \<noteq> oldContent_of rt fd"
      "res = Inr url"
      "evs = start_events rt params r b f ms rs
               @ [fetch_event rt params r b f ms (Inr (Item fd)),
                  commit_event rt params r b f ms fd (Inr url)]"
  | (pull_rejected) r b f ms rs fd commitUrl e where
      "needsPr r b" "refs_created r b rs"
      "replace params (oldContent_of rt fd) \<noteq> oldContent_of rt fd"
      "res = Inl (ApiError e)"
      "evs = start_events rt params r b f ms rs
               @ [fetch_event rt params r b f ms (Inr (Item fd)),
                  commit_event rt params r b f ms fd (Inr commitUrl),
                  pull_event rt params r b f ms (Inl e)]"
  | (pull_opened) r b f ms rs fd commitUrl url where
      "needsPr r b" "refs_created r b rs"
      "replace params (oldContent_of rt fd) \<noteq> oldContent_of rt fd"
      "res = Inr url"
      "evs = start_events rt params r b f ms rs
               @ [fetch_event rt params r b f ms (Inr (Item fd)),
                  commit_event rt params r b f ms fd (Inr commitUrl),
                  pull_event rt params r b f ms (Inr url)]"
proof -
  from run[unfolded edit_github_blob_def Let_def] show thesis
  proof (cases rule: await_request_elim)
    case (rej e)
    then show thesis by (intro repos_get_rejected[of e]) (simp_all add: vocabulary)
  next
    case get: (ans r w1 evs1)
    from get(2) show thesis
    proof (cases rule: await_request_elim)
      case (rej e)
      with get show thesis by (intro getBranch_rejected[of e r]) (simp_all add: vocabulary)
    next
      case br: (ans b w2 evs2)
      from br(2) show thesis
      proof (cases rule: await_elim)
        case (fail err)
        from fail(1) show thesis
        proof (cases rule: fork_step)
          case (rej e)
          with get br fail show thesis
            by (intro createFork_rejected[of r e b]) (simp_all add: vocabulary)
        qed (use fail in simp_all)
      next
        case fk: (ok H evs3 w3 evs3')
        from fk(1) obtain f where f: "H = headRepo_of params r f"
            "evs3 = (if needsFork r then [ReposCreateFork (baseRepo_of params) (Inr f)] else [])"
          by (cases rule: fork_step) (auto simp: vocabulary)
        from fk(2) show thesis
        proof (cases rule: await_elim)
          case (fail err)
          from fail(1) show thesis by (cases rule: name_step) simp_all
        next
          case nm: (ok hb evs4 w4 evs4')
          from nm(1) obtain ms where ms: "hb = headBranch_of rt params r b ms"
              "evs4 = (if needsPr r b then [DateNow ms] else [])"
            by (cases rule: name_step) (auto simp: vocabulary)
          from nm(2) show thesis
          proof (cases rule: await_elim)
            case (fail err)
            from fail(1) show thesis
            proof (cases rule: ref_step)
              case (exhausted rs e)
              with get br fk f nm ms fail show thesis
                by (intro createRef_rejected[of r b rs e f ms]) (simp_all add: vocabulary)
            qed (use fail in simp_all)
          next
            case rf: (ok u evs5 w5 evs5')
            from rf(1) obtain rs where rs: "refs_created r b rs"
                "evs5 = (if needsPr r b
                         then ref_events (headRepo_of params r f) (headBranch_of rt params r b ms)
                                (commit_sha b) rs
                         else [])"
            proof (cases rule: ref_step)
              case (succeeded rs)
              then show thesis using f ms by (intro that[of rs]) (simp_all add: vocabulary)
            next
              case skip
              then show thesis by (intro that[of "[]"]) (simp_all add: vocabulary)
            qed simp_all
            from get br fk f nm ms rf rs
            have start: "evs = start_events rt params r b f ms rs @ evs5'"
              by (simp add: start_events_def baseRepo_of_def baseBranch_of_def)
            from rf(2) show thesis
            proof (cases rule: await_request_elim)
              case (rej e)
              with start rs f ms show thesis
                by (intro getContents_rejected[of r b rs e f ms]) (simp_all add: fetch_event_def)
            next
              case gc: (ans fileData w6 evs6)
              show thesis
              proof (cases fileData)
                case (Listing entries)
                with gc start rs f ms show thesis
                  by (intro directory[of r b rs f ms entries])
                    (simp_all add: fetch_event_def throw_def not_a_file_def)
              next
                case (Item fd)
                show thesis
                proof (cases "replace params (oldContent_of rt fd) = oldContent_of rt fd")
                  case True
                  with Item gc start rs f ms show thesis
                    by (intro unchanged[of r b rs fd f ms])
                      (simp_all add: fetch_event_def throw_def no_change_def oldContent_of_def)
                next
                  case False
                  note neq = False[unfolded oldContent_of_def, THEN eq_False[THEN iffD2]]
                  from gc(2)[unfolded Item contents_data.case neq if_False]
                  show thesis
                  proof (cases rule: await_request_elim)
                    case (rej e)
                    with False Item gc start rs f ms show thesis
                      by (intro commit_rejected[of r b rs fd e f ms])
                        (simp_all add: vocabulary)
                  next
                    case cm: (ans commitUrl w7 evs7)
                    from cm(2) show thesis
                    proof (cases rule: pull_step)
                      case (rej e)
                      with False Item gc cm start rs f ms show thesis
                        by (intro pull_rejected[of r b rs fd e f ms commitUrl])
                          (simp_all add: vocabulary)
                    next
                      case (ans url)
                      with False Item gc cm start rs f ms show thesis
                        by (intro pull_opened[of r b rs fd url f ms commitUrl])
                          (simp_all add: vocabulary)
                    next
                      case skip
                      with False Item gc cm start rs f ms show thesis
                        by (intro committed[of r b fd commitUrl f ms rs])
                          (simp_all add: vocabulary)
                    qed
                  qed
                qed
              qed
            qed
          qed
        qed
      qed
    qed
  qed
qed

section \<open>Rendering the timestamp\<close>

lemma Math_round_ms: "Math_round (real_of_int ms / 1000) = (ms + 500) div 1000"
proof -
  have "real_of_int ms / 1000 + 1 / 2 = real_of_int (ms + 500) / real_of_int 1000" by simp
  then show ?thesis unfolding Math_round_def by (simp only: floor_divide_of_int_eq)
qed

lemma digit_char_inj:
  assumes "a < 10" and "b < 10" and "''0123456789'' ! a = ''0123456789'' ! b"
  shows "a = b"
proof -
  have "distinct ''0123456789''" by simp
  moreover have "a < length ''0123456789''" "b < length ''0123456789''" using assms by simp_all
  ultimately show ?thesis using assms(3) by (simp only: nth_eq_iff_index_eq)
qed

lemma digit_char_not_minus: "a < 10 \<Longrightarrow> ''0123456789'' ! a \<noteq> CHR ''-''"
proof -
  assume "a < 10"
  then have "''0123456789'' ! a \<in> set ''0123456789''" by (intro nth_mem) simp
  then show ?thesis by auto
qed

lemma digits_nonempty: "digits n \<noteq> []"
  by (subst digits.simps) simp

lemma digits_no_minus: "CHR ''-'' \<notin> set (digits n)"
proof (induction n rule: digits.induct)
  case (1 n)
  show ?case
  proof (cases "n < 10")
    case True
    then show ?thesis using digit_char_not_minus[of n] by (subst digits.simps) auto
  next
    case False
    moreover have "n mod 10 < 10" by simp
    ultimately show ?thesis
      using 1 digit_char_not_minus[of "n mod 10"] by (subst digits.simps) auto
  qed
qed

lemma digits_inj: "digits n = digits m \<Longrightarrow> n = m"
proof (induction n arbitrary: m rule: digits.induct)
  case (1 n)
  have dn: "digits n = (if n < 10 then [''0123456789'' ! n]
              else digits (n div 10) @ [''0123456789'' ! (n mod 10)])"
    by (subst digits.simps) (rule refl)
  have dm: "digits m = (if m < 10 then [''0123456789'' ! m]
              else digits (m div 10) @ [''0123456789'' ! (m mod 10)])"
    by (subst digits.simps) (rule refl)
  show ?case
  proof (cases "n < 10")
    case n: True
    show ?thesis
    proof (cases "m < 10")
      case True
      with n "1.prems" dn dm show ?thesis by (auto intro: digit_char_inj)
    next
      case False
      with n "1.prems" dn dm digits_nonempty[of "m div 10"] show ?thesis by auto
    qed
  next
    case n: False
    show ?thesis
    proof (cases "m < 10")
      case True
      with n "1.prems" dn dm digits_nonempty[of "n div 10"] show ?thesis by auto
    next
      case False
      with n "1.prems" dn dm have "digits (n div 10) = digits (m div 10)"
        and c: "''0123456789'' ! (n mod 10) = ''0123456789'' ! (m mod 10)" by auto
      with n "1.IH" have "n div 10 = m div 10" by blast
      moreover from c have "n mod 10 = m mod 10" by (intro digit_char_inj) simp_all
      ultimately show ?thesis by (metis div_mult_mod_eq)
    qed
  qed
qed

lemma Number_toString_inj: "Number_toString s = Number_toString t \<Longrightarrow> s = t"
proof -
  assume eq: "Number_toString s = Number_toString t"
  consider "s < 0" "t < 0" | "s < 0" "0 \<le> t" | "0 \<le> s" "t < 0" | "0 \<le> s" "0 \<le> t"
    by linarith
  then show ?thesis
  proof cases
    case 1
    with eq have "digits (nat (- s)) = digits (nat (- t))" by (simp add: Number_toString_def)
    then have "nat (- s) = nat (- t)" by (rule digits_inj)
    with 1 show ?thesis by simp
  next
    case 2
    with eq have "CHR ''-'' # digits (nat (- s)) = digits (nat t)"
      by (simp add: Number_toString_def)
    then have "CHR ''-'' \<in> set (digits (nat t))" by (metis list.set_intros(1))
    then show ?thesis by (simp add: digits_no_minus)
  next
    case 3
    with eq have "digits (nat s) = CHR ''-'' # digits (nat (- t))"
      by (simp add: Number_toString_def)
    then have "CHR ''-'' \<in> set (digits (nat s))" by (metis list.set_intros(1))
    then show ?thesis by (simp add: digits_no_minus)
  next
    case 4
    with eq have "digits (nat s) = digits (nat t)" by (simp add: Number_toString_def)
    then have "nat s = nat t" by (rule digits_inj)
    with 4 show ?thesis by simp
  qed
qed

section \<open>Splitting the commit message\<close>

lemma split_from_nonempty: "split_from sep acc s \<noteq> []"
  by (induction sep acc s rule: split_from.induct) auto

lemma join_Cons: "ys \<noteq> [] \<Longrightarrow> join (x # ys) sep = x @ sep @ join ys sep"
  by (cases ys) simp_all

lemma split_from_no_sep:
  "(\<forall>i. \<not> prefix sep (drop i s)) \<Longrightarrow> split_from sep acc s = [rev acc @ s]"
proof (induction s arbitrary: acc)
  case Nil
  then show ?case by simp
next
  case (Cons c cs)
  from Cons.prems have "\<not> prefix sep (drop 0 (c # cs))" by blast
  moreover have "\<forall>i. \<not> prefix sep (drop i cs)"
  proof
    fix i from Cons.prems have "\<not> prefix sep (drop (Suc i) (c # cs))" by blast
    then show "\<not> prefix sep (drop i cs)" by simp
  qed
  ultimately show ?case using Cons.IH[of "c # acc"] by simp
qed

lemma split_from_first:
  assumes "sep \<noteq> []" and "\<forall>i<length u. \<not> prefix sep (drop i (u @ sep @ v))"
  shows "split_from sep acc (u @ sep @ v) = (rev acc @ u) # split_from sep [] v"
  using assms(2)
proof (induction u arbitrary: acc)
  case Nil
  from assms(1) obtain c cs where s: "sep @ v = c # cs" by (cases sep) auto
  have p: "prefix sep (c # cs)" and d: "drop (length sep) (c # cs) = v"
    by (simp_all add: s[symmetric])
  have "split_from sep acc (c # cs) = rev acc # split_from sep [] v"
    by (simp only: split_from.simps p d assms(1) not_False_eq_True simp_thms if_True)
  then show ?case by (simp add: s)
next
  case (Cons a u)
  from Cons.prems have "\<not> prefix sep (drop 0 ((a # u) @ sep @ v))" by (metis length_greater_0_conv list.distinct(1))
  moreover have "\<forall>i<length u. \<not> prefix sep (drop i (u @ sep @ v))"
  proof (intro allI impI)
    fix i assume "i < length u"
    with Cons.prems have "\<not> prefix sep (drop (Suc i) ((a # u) @ sep @ v))" by auto
    then show "\<not> prefix sep (drop i (u @ sep @ v))" by simp
  qed
  ultimately show ?case using Cons.IH[of "a # acc"] by simp
qed

lemma join_split_from: "sep \<noteq> [] \<Longrightarrow> join (split_from sep acc s) sep = rev acc @ s"
proof (induction sep acc s rule: split_from.induct)
  case (1 sep acc)
  then show ?case by simp
next
  case (2 sep acc c cs)
  show ?case
  proof (cases "prefix sep (c # cs)")
    case True
    then have eq: "c # cs = sep @ drop (length sep) (c # cs)"
      by (metis append_eq_conv_conj prefixE)
    from True 2 have "join (split_from sep acc (c # cs)) sep
        = rev acc @ sep @ drop (length sep) (c # cs)"
      by (simp add: join_Cons split_from_nonempty)
    with eq show ?thesis by simp
  next
    case False
    with 2 show ?thesis by simp
  qed
qed

lemma title_body_no_blank_line:
  assumes "\<forall>i. \<not> prefix ''\<newline>\<newline>'' (drop i m)"
  shows "title_of m = m" and "body_of m = []"
  using split_from_no_sep[OF assms, of "[]"] by (simp_all add: title_of_def body_of_def split_def)

lemma title_body_first_blank_line:
  assumes "m = u @ ''\<newline>\<newline>'' @ v" and "\<forall>i<length u. \<not> prefix ''\<newline>\<newline>'' (drop i m)"
  shows "title_of m = u" and "body_of m = v"
proof -
  have "split m ''\<newline>\<newline>'' = u # split_from ''\<newline>\<newline>'' [] v"
    using split_from_first[of "''\<newline>\<newline>''" u v "[]"] assms by (simp add: split_def)
  then show "title_of m = u" and "body_of m = v"
    using join_split_from[of "''\<newline>\<newline>''" "[]" v] by (simp_all add: title_of_def body_of_def)
qed

lemma title_body_example:
  "title_of ''Fix typo\<newline>\<newline>Details here'' = ''Fix typo''"
  "body_of ''Fix typo\<newline>\<newline>Details here'' = ''Details here''"
  by (simp_all add: title_of_def body_of_def split_def)

section \<open>Where the requests of a run can occur\<close>

lemma in_ref_events:
  assumes "e \<in> set (ref_events H hb commitSha rs)"
  shows "e = SetTimeout 5000
       \<or> (\<exists>x \<in> set rs. e = GitCreateRef H (''refs/heads/'' @ hb) commitSha x)"
  using assms
    set_intersperse[of "SetTimeout 5000" "map (GitCreateRef H (''refs/heads/'' @ hb) commitSha) rs"]
  by (auto simp: ref_events_def)

lemma in_start_events:
  assumes "e \<in> set (start_events rt params r b f ms rs)"
  shows "e = ReposGet (baseRepo_of params) (Inr r)
       \<or> e = ReposGetBranch (baseRepo_of params) (baseBranch_of params r) (Inr b)
       \<or> (needsFork r \<and> e = ReposCreateFork (baseRepo_of params) (Inr f))
       \<or> (needsPr r b \<and> (e = DateNow ms \<or> e = SetTimeout 5000
            \<or> (\<exists>x \<in> set rs. e = GitCreateRef (headRepo_of params r f)
                  (''refs/heads/'' @ headBranch_of rt params r b ms) (commit_sha b) x)))"
  using assms by (auto simp: start_events_def dest: in_ref_events split: if_splits)

lemma ReposGet_in_start [simp]:
  "ReposGet B (Inr r') \<in> set (start_events rt params r b f ms rs)
     \<longleftrightarrow> B = baseRepo_of params \<and> r' = r"
  by (auto simp: start_events_def dest: in_ref_events)

lemma ReposGetBranch_in_start [simp]:
  "ReposGetBranch B bb (Inr b') \<in> set (start_events rt params r b f ms rs)
     \<longleftrightarrow> B = baseRepo_of params \<and> bb = baseBranch_of params r \<and> b' = b"
  by (auto simp: start_events_def dest: in_ref_events)

lemma ReposGetContents_notin_start [simp]:
  "ReposGetContents H p ref x \<notin> set (start_events rt params r b f ms rs)"
  by (auto simp: start_events_def dest: in_ref_events)

lemma commit_or_pull_notin_start:
  "e \<in> set (start_events rt params r b f ms rs) \<Longrightarrow> \<not> is_commit_or_pull e"
  by (auto dest!: in_start_events)

lemma direct_start_no_write:
  "permissions_push r \<Longrightarrow> \<not> protected b \<Longrightarrow> e \<in> set (start_events rt params r b f ms rs)
     \<Longrightarrow> \<not> is_write e"
  by (auto dest!: in_start_events simp: needsPr_def needsFork_def)

lemma run_cases:
  obtains res evs w' where "edit_github_blob rt params w = (res, evs, w')"
  by (cases "edit_github_blob rt params w")

lemma run_shape_resolved:
  assumes run: "edit_github_blob rt params w = (res, evs, w')"
    and r: "ReposGet B (Inr r) \<in> set evs"
    and b: "ReposGetBranch B' bb (Inr b) \<in> set evs"
  obtains
    (createFork_rejected) e where
      "needsFork r"
      "res = Inl (ApiError e)"
      "evs = [ReposGet (baseRepo_of params) (Inr r),
              ReposGetBranch (baseRepo_of params) (baseBranch_of params r) (Inr b),
              ReposCreateFork (baseRepo_of params) (Inl e)]"
  | (createRef_rejected) f ms rs e where
      "needsPr r b" "rs \<noteq> []" "\<forall>x \<in> set rs. isl x" "last rs = Inl e"
      "length rs = retries r + 1"
      "res = Inl (ApiError e)"
      "evs = start_events rt params r b f ms rs"
  | (getContents_rejected) f ms rs e where
      "refs_created r b rs"
      "res = Inl (ApiError e)"
      "evs = start_events rt params r b f ms rs @ [fetch_event rt params r b f ms (Inl e)]"
  | (directory) f ms rs entries where
      "refs_created r b rs"
      "res = Inl (not_a_file (filePath params))"
      "evs = start_events rt params r b f ms rs
               @ [fetch_event rt params r b f ms (Inr (Listing entries))]"
  | (unchanged) f ms rs fd where
      "refs_created r b rs"
      "replace params (oldContent_of rt fd) = oldContent_of rt fd"
      "res = Inl no_change"
      "evs = start_events rt params r b f ms rs
               @ [fetch_event rt params r b f ms (Inr (Item fd))]"
  | (commit_rejected) f ms rs fd e where
      "refs_created r b rs"
      "replace params (oldContent_of rt fd) \<noteq> oldContent_of rt fd"
      "res = Inl (ApiError e)"
      "evs = start_events rt params r b f ms rs
               @ [fetch_event rt params r b f ms (Inr (Item fd)),
                  commit_event rt params r b f ms fd (Inl e)]"
  | (committed) f ms rs fd url where
      "\<not> needsPr r b"
      "replace params (oldContent_of rt fd) \<noteq> oldContent_of rt fd"
      "res = Inr url"
      "evs = start_events rt params r b f ms rs
               @ [fetch_event rt params r b f ms (Inr (Item fd)),
                  commit_event rt params r b f ms fd (Inr url)]"
  | (pull_rejected) f ms rs fd commitUrl e where
      "needsPr r b" "refs_created r b rs"
      "replace params (oldContent_of rt fd) \<noteq> oldContent_of rt fd"
      "res = Inl (ApiError e)"
      "evs = start_events rt params r b f ms rs
               @ [fetch_event rt params r b f ms (Inr (Item fd)),
                  commit_event rt params r b f ms fd (Inr commitUrl),
                  pull_event rt params r b f ms (Inl e)]"
  | (pull_opened) f ms rs fd commitUrl url where
      "needsPr r b" "refs_created r b rs"
      "replace params (oldContent_of rt fd) \<noteq> oldContent_of rt fd"
      "res = Inr url"
      "evs = start_events rt params r b f ms rs
               @ [fetch_event rt params r b f ms (Inr (Item fd)),
                  commit_event rt params r b f ms fd (Inr commitUrl),
                  pull_event rt params r b f ms (Inr url)]"
  using run
proof (cases rule: run_shape)
  case (repos_get_rejected e)
  with r show ?thesis by simp
next
  case (getBranch_rejected r' e)
  with b show ?thesis by simp
next
  case (createFork_rejected r' b' e)
  with r b have "r' = r" "b' = b" by auto
  with createFork_rejected show ?thesis by (intro that(1)[of e]) simp_all
next
  case (createRef_rejected r' b' f ms rs e)
  with r b have "r' = r" "b' = b" by auto
  with createRef_rejected show ?thesis by (intro that(2)[of rs e f ms]) simp_all
next
  case (getContents_rejected r' b' f ms rs e)
  with r b have "r' = r" "b' = b" by (auto simp: fetch_event_def)
  with getContents_rejected show ?thesis by (intro that(3)[of rs e f ms]) simp_all
next
  case (directory r' b' f ms rs entries)
  with r b have "r' = r" "b' = b" by (auto simp: fetch_event_def)
  with directory show ?thesis by (intro that(4)[of rs f ms entries]) simp_all
next
  case (unchanged r' b' f ms rs fd)
  with r b have "r' = r" "b' = b" by (auto simp: fetch_event_def)
  with unchanged show ?thesis by (intro that(5)[of rs fd f ms]) simp_all
next
  case (commit_rejected r' b' f ms rs fd e)
  with r b have "r' = r" "b' = b" by (auto simp: fetch_event_def commit_event_def)
  with commit_rejected show ?thesis by (intro that(6)[of rs fd e f ms]) simp_all
next
  case (committed r' b' f ms rs fd url)
  with r b have "r' = r" "b' = b" by (auto simp: fetch_event_def commit_event_def)
  with committed show ?thesis by (intro that(7)[of fd url f ms rs]) simp_all
next
  case (pull_rejected r' b' f ms rs fd commitUrl e)
  with r b have "r' = r" "b' = b"
    by (auto simp: fetch_event_def commit_event_def pull_event_def)
  with pull_rejected show ?thesis by (intro that(8)[of rs fd e f ms commitUrl]) simp_all
next
  case (pull_opened r' b' f ms rs fd commitUrl url)
  with r b have "r' = r" "b' = b"
    by (auto simp: fetch_event_def commit_event_def pull_event_def)
  with pull_opened show ?thesis by (intro that(9)[of rs fd url f ms commitUrl]) simp_all
qed







lemma ReposCreateFork_in_start:
  "ReposCreateFork B (Inr f') \<in> set (start_events rt params r b f ms rs)
     \<longleftrightarrow> needsFork r \<and> B = baseRepo_of params \<and> f' = f"
  by (auto simp: start_events_def dest: in_ref_events)



lemma fork_is_head_repo:
  assumes run: "edit_github_blob rt params w = (res, evs, w')"
    and r: "ReposGet repo1 (Inr r) \<in> set evs" and fork: "\<not> permissions_push r"
    and b: "ReposGetBranch repo2 branch2 (Inr b) \<in> set evs"
  shows "(\<exists>answer. ReposCreateFork (baseRepo_of params) answer \<in> set evs)
       \<and> (\<forall>e \<in> set evs. \<forall>headRepo. head_repo e = Some headRepo \<longrightarrow>
             (\<exists>f. ReposCreateFork (baseRepo_of params) (Inr f) \<in> set evs
                \<and> headRepo = \<lparr>owner = owner_login f, repo = fork_name f\<rparr>))
       \<and> (\<forall>headRepo ref commitSha answer.
             GitCreateRef headRepo ref commitSha answer \<in> set evs \<longrightarrow> commitSha = commit_sha b)"
proof -
  from fork have nf: "needsFork r" "needsPr r b" by (simp_all add: needsFork_def needsPr_def)
  have start: "\<And>f ms rs e. e \<in> set (start_events rt params r b f ms rs) \<Longrightarrow>
      (\<forall>H. head_repo e = Some H \<longrightarrow> H = \<lparr>owner = owner_login f, repo = fork_name f\<rparr>)
      \<and> (\<forall>H ref s x. e = GitCreateRef H ref s x \<longrightarrow> s = commit_sha b)"
    using nf by (auto dest!: in_start_events simp: headRepo_of_def)
  have fork_in: "\<And>f ms rs. ReposCreateFork (baseRepo_of params) (Inr f)
      \<in> set (start_events rt params r b f ms rs)"
    using nf by (simp add: start_events_def)
  note shapes = fetch_event_def commit_event_def pull_event_def headRepo_of_def
  from run r b show ?thesis
  proof (cases rule: run_shape_resolved)
    case (createFork_rejected e)
    then show ?thesis by auto
  next
    case (createRef_rejected f ms rs e)
    then show ?thesis using nf fork_in[of f ms rs] by (auto dest: start)
  next
    case (getContents_rejected f ms rs e)
    then show ?thesis using nf fork_in[of f ms rs] by (auto simp: shapes dest: start)
  next
    case (directory f ms rs entries)
    then show ?thesis using nf fork_in[of f ms rs] by (auto simp: shapes dest: start)
  next
    case (unchanged f ms rs fd)
    then show ?thesis using nf fork_in[of f ms rs] by (auto simp: shapes dest: start)
  next
    case (commit_rejected f ms rs fd e)
    then show ?thesis using nf fork_in[of f ms rs] by (auto simp: shapes dest: start)
  next
    case (committed f ms rs fd url)
    then show ?thesis using nf by simp
  next
    case (pull_rejected f ms rs fd commitUrl e)
    then show ?thesis using nf fork_in[of f ms rs] by (auto simp: shapes dest: start)
  next
    case (pull_opened f ms rs fd commitUrl url)
    then show ?thesis using nf fork_in[of f ms rs] by (auto simp: shapes dest: start)
  qed
qed

lemma fork_run_returns:
  assumes run: "edit_github_blob rt params w = (res, evs, w')"
    and "ReposGet (baseRepo_of params) (Inr r) \<in> set evs"
    and "\<not> permissions_push r"
    and "res = Inr url"
  shows "\<exists>b f ms rs fd commitUrl headBranch.
      headBranch = ''update-'' @ basename rt (filePath params) @ ''-''
                     @ Number_toString (Math_round (real_of_int ms / 1000))
    \<and> rs \<noteq> [] \<and> last rs = Inr ()
    \<and> evs =
        [ReposGet (baseRepo_of params) (Inr r),
         ReposGetBranch (baseRepo_of params) (baseBranch_of params r) (Inr b),
         ReposCreateFork (baseRepo_of params) (Inr f),
         DateNow ms]
        @ ref_events \<lparr>owner = owner_login f, repo = fork_name f\<rparr> headBranch (commit_sha b) rs
        @ [ReposGetContents \<lparr>owner = owner_login f, repo = fork_name f\<rparr> (filePath params)
             headBranch (Inr (Item fd)),
           ReposCreateOrUpdateFile \<lparr>owner = owner_login f, repo = fork_name f\<rparr>
             (filePath params) (commitMessage_of params) (newContent_base64 rt params fd)
             (sha fd) headBranch (Inr commitUrl),
           PullsCreate (baseRepo_of params) (baseBranch_of params r)
             (owner_login f @ '':'' @ headBranch) (title_of (commitMessage_of params))
             (body_of (commitMessage_of params)) (Inr url)]"
proof -
  from assms(3) have fork: "needsFork r" "\<And>b. needsPr r b"
    by (simp_all add: needsFork_def needsPr_def)
  from run show ?thesis
  proof (cases rule: run_shape)
    case (committed r' b f ms rs fd url')
    with assms(2) have "r' = r" by (simp add: fetch_event_def commit_event_def)
    with committed fork show ?thesis by simp
  next
    case (pull_opened r' b f ms rs fd commitUrl url')
    with assms(2) have r': "r' = r"
      by (simp add: fetch_event_def commit_event_def pull_event_def)
    from pull_opened(2) fork r' have rs: "rs \<noteq> []" "last rs = Inr ()"
      by (simp_all add: refs_created_def)
    from assms(4) pull_opened(4) have url: "url' = url" by simp
    show ?thesis
      unfolding pull_opened(5) r' url
      by (intro exI[of _ b] exI[of _ f] exI[of _ ms] exI[of _ rs] exI[of _ fd]
          exI[of _ commitUrl] exI[of _ "headBranch_of rt params r b ms"])
        (use fork rs in \<open>simp add: start_events_def fetch_event_def commit_event_def
          pull_event_def headRepo_of_def headBranch_of_def\<close>)
  qed (use assms(4) in simp_all)
qed


section \<open>Evaluating concrete runs\<close>

lemmas sim_defs = node_def provider_def formula_def world_def hello_def exclaim_def
  posix_basename_def base64_decode_def base64_alphabet_def List.map_filter_def
lemmas run_defs = edit_github_blob_def await_def request_def resolve_def throw_def now_def
  Let_def retry.simps Math_round_def Number_toString_def digits.simps split_def

lemma run_direct_unchanged:
  "edit_github_blob node (formula True False (Item hello) id None) (world 1700000000400 0) =
    (Inl (Error ''no replacements ocurred''),
     [ReposGet \<lparr>owner = ''Homebrew'', repo = ''homebrew-core''\<rparr>
        (Inr \<lparr>default_branch = ''master'', permissions_push = True\<rparr>),
      ReposGetBranch \<lparr>owner = ''Homebrew'', repo = ''homebrew-core''\<rparr> ''master''
        (Inr \<lparr>protected = False, commit_sha = ''c0ffee''\<rparr>),
      ReposGetContents \<lparr>owner = ''Homebrew'', repo = ''homebrew-core''\<rparr>
        ''Formula/hello.rb'' ''master'' (Inr (Item hello))],
     world 1700000000400 0)"
  by (simp add: sim_defs run_defs)

lemma run_fork_unchanged:
  "edit_github_blob node (formula False False (Item hello) id None) (world 1700000000400 0) =
    (Inl (Error ''no replacements ocurred''),
     [ReposGet \<lparr>owner = ''Homebrew'', repo = ''homebrew-core''\<rparr>
        (Inr \<lparr>default_branch = ''master'', permissions_push = False\<rparr>),
      ReposGetBranch \<lparr>owner = ''Homebrew'', repo = ''homebrew-core''\<rparr> ''master''
        (Inr \<lparr>protected = False, commit_sha = ''c0ffee''\<rparr>),
      ReposCreateFork \<lparr>owner = ''Homebrew'', repo = ''homebrew-core''\<rparr>
        (Inr \<lparr>owner_login = ''bot'', fork_name = ''homebrew-core''\<rparr>),
      DateNow 1700000000400,
      GitCreateRef \<lparr>owner = ''bot'', repo = ''homebrew-core''\<rparr>
        ''refs/heads/update-hello.rb-1700000000'' ''c0ffee'' (Inr ()),
      ReposGetContents \<lparr>owner = ''bot'', repo = ''homebrew-core''\<rparr>
        ''Formula/hello.rb'' ''update-hello.rb-1700000000'' (Inr (Item hello))],
     world 1700000000400 0)"
  by (simp add: sim_defs run_defs)

lemma run_direct_directory:
  "edit_github_blob node (formula True False (Listing [''Formula/hello.rb/a'']) exclaim None)
     (world 1700000000400 0) =
    (Inl (Error ''expected 'Formula/hello.rb' is a file, got a directory''),
     [ReposGet \<lparr>owner = ''Homebrew'', repo = ''homebrew-core''\<rparr>
        (Inr \<lparr>default_branch = ''master'', permissions_push = True\<rparr>),
      ReposGetBranch \<lparr>owner = ''Homebrew'', repo = ''homebrew-core''\<rparr> ''master''
        (Inr \<lparr>protected = False, commit_sha = ''c0ffee''\<rparr>),
      ReposGetContents \<lparr>owner = ''Homebrew'', repo = ''homebrew-core''\<rparr>
        ''Formula/hello.rb'' ''master'' (Inr (Listing [''Formula/hello.rb/a'']))],
     world 1700000000400 0)"
  by (simp add: sim_defs run_defs)

lemma run_fork_directory:
  "edit_github_blob node (formula False False (Listing [''Formula/hello.rb/a'']) exclaim None)
     (world 1700000000400 0) =
    (Inl (Error ''expected 'Formula/hello.rb' is a file, got a directory''),
     [ReposGet \<lparr>owner = ''Homebrew'', repo = ''homebrew-core''\<rparr>
        (Inr \<lparr>default_branch = ''master'', permissions_push = False\<rparr>),
      ReposGetBranch \<lparr>owner = ''Homebrew'', repo = ''homebrew-core''\<rparr> ''master''
        (Inr \<lparr>protected = False, commit_sha = ''c0ffee''\<rparr>),
      ReposCreateFork \<lparr>owner = ''Homebrew'', repo = ''homebrew-core''\<rparr>
        (Inr \<lparr>owner_login = ''bot'', fork_name = ''homebrew-core''\<rparr>),
      DateNow 1700000000400,
      GitCreateRef \<lparr>owner = ''bot'', repo = ''homebrew-core''\<rparr>
        ''refs/heads/update-hello.rb-1700000000'' ''c0ffee'' (Inr ()),
      ReposGetContents \<lparr>owner = ''bot'', repo = ''homebrew-core''\<rparr>
        ''Formula/hello.rb'' ''update-hello.rb-1700000000''
        (Inr (Listing [''Formula/hello.rb/a'']))],
     world 1700000000400 0)"
  by (simp add: sim_defs run_defs)

lemma run_direct:
  "edit_github_blob node (formula True False (Item hello) exclaim None) (world 1700000000400 0) =
    (Inr ''https://github.com/Homebrew/homebrew-core/commit/1'',
     [ReposGet \<lparr>owner = ''Homebrew'', repo = ''homebrew-core''\<rparr>
        (Inr \<lparr>default_branch = ''master'', permissions_push = True\<rparr>),
      ReposGetBranch \<lparr>owner = ''Homebrew'', repo = ''homebrew-core''\<rparr> ''master''
        (Inr \<lparr>protected = False, commit_sha = ''c0ffee''\<rparr>),
      ReposGetContents \<lparr>owner = ''Homebrew'', repo = ''homebrew-core''\<rparr>
        ''Formula/hello.rb'' ''master'' (Inr (Item hello)),
      ReposCreateOrUpdateFile \<lparr>owner = ''Homebrew'', repo = ''homebrew-core''\<rparr>
        ''Formula/hello.rb'' ''Update Formula/hello.rb'' ''aGVsbG8h'' ''abc'' ''master''
        (Inr ''https://github.com/Homebrew/homebrew-core/commit/1'')],
     world 1700000000400 0)"
  by (simp add: sim_defs run_defs)

lemma run_fork:
  "edit_github_blob node (formula False False (Item hello) exclaim None) (world 1700000000400 2) =
    (Inr ''https://github.com/Homebrew/homebrew-core/pull/1'',
     [ReposGet \<lparr>owner = ''Homebrew'', repo = ''homebrew-core''\<rparr>
        (Inr \<lparr>default_branch = ''master'', permissions_push = False\<rparr>),
      ReposGetBranch \<lparr>owner = ''Homebrew'', repo = ''homebrew-core''\<rparr> ''master''
        (Inr \<lparr>protected = False, commit_sha = ''c0ffee''\<rparr>),
      ReposCreateFork \<lparr>owner = ''Homebrew'', repo = ''homebrew-core''\<rparr>
        (Inr \<lparr>owner_login = ''bot'', fork_name = ''homebrew-core''\<rparr>),
      DateNow 1700000000400,
      GitCreateRef \<lparr>owner = ''bot'', repo = ''homebrew-core''\<rparr>
        ''refs/heads/update-hello.rb-1700000000'' ''c0ffee'' (Inl ''Reference update failed''),
      SetTimeout 5000,
      GitCreateRef \<lparr>owner = ''bot'', repo = ''homebrew-core''\<rparr>
        ''refs/heads/update-hello.rb-1700000000'' ''c0ffee'' (Inl ''Reference update failed''),
      SetTimeout 5000,
      GitCreateRef \<lparr>owner = ''bot'', repo = ''homebrew-core''\<rparr>
        ''refs/heads/update-hello.rb-1700000000'' ''c0ffee'' (Inr ()),
      ReposGetContents \<lparr>owner = ''bot'', repo = ''homebrew-core''\<rparr>
        ''Formula/hello.rb'' ''update-hello.rb-1700000000'' (Inr (Item hello)),
      ReposCreateOrUpdateFile \<lparr>owner = ''bot'', repo = ''homebrew-core''\<rparr>
        ''Formula/hello.rb'' ''Update Formula/hello.rb'' ''aGVsbG8h'' ''abc''
        ''update-hello.rb-1700000000'' (Inr ''https://github.com/bot/homebrew-core/commit/1''),
      PullsCreate \<lparr>owner = ''Homebrew'', repo = ''homebrew-core''\<rparr> ''master''
        ''bot:update-hello.rb-1700000000'' ''Update Formula/hello.rb'' []
        (Inr ''https://github.com/Homebrew/homebrew-core/pull/1'')],
     world 1700000010400 0)"
  by (simp add: sim_defs run_defs)



lemma run_fork_message:
  "edit_github_blob node
     (formula False False (Item hello) exclaim (Some ''Fix typo\<newline>\<newline>Details here''))
     (world 1700000000400 0) =
    (Inr ''https://github.com/Homebrew/homebrew-core/pull/1'',
     [ReposGet \<lparr>owner = ''Homebrew'', repo = ''homebrew-core''\<rparr>
        (Inr \<lparr>default_branch = ''master'', permissions_push = False\<rparr>),
      ReposGetBranch \<lparr>owner = ''Homebrew'', repo = ''homebrew-core''\<rparr> ''master''
        (Inr \<lparr>protected = False, commit_sha = ''c0ffee''\<rparr>),
      ReposCreateFork \<lparr>owner = ''Homebrew'', repo = ''homebrew-core''\<rparr>
        (Inr \<lparr>owner_login = ''bot'', fork_name = ''homebrew-core''\<rparr>),
      DateNow 1700000000400,
      GitCreateRef \<lparr>owner = ''bot'', repo = ''homebrew-core''\<rparr>
        ''refs/heads/update-hello.rb-1700000000'' ''c0ffee'' (Inr ()),
      ReposGetContents \<lparr>owner = ''bot'', repo = ''homebrew-core''\<rparr>
        ''Formula/hello.rb'' ''update-hello.rb-1700000000'' (Inr (Item hello)),
      ReposCreateOrUpdateFile \<lparr>owner = ''bot'', repo = ''homebrew-core''\<rparr>
        ''Formula/hello.rb'' ''Fix typo\<newline>\<newline>Details here'' ''aGVsbG8h'' ''abc''
        ''update-hello.rb-1700000000'' (Inr ''https://github.com/bot/homebrew-core/commit/1''),
      PullsCreate \<lparr>owner = ''Homebrew'', repo = ''homebrew-core''\<rparr> ''master''
        ''bot:update-hello.rb-1700000000'' ''Fix typo'' ''Details here''
        (Inr ''https://github.com/Homebrew/homebrew-core/pull/1'')],
     world 1700000000400 0)"
  by (simp add: sim_defs run_defs)

lemma run_fork_unchanged_same_second:
  "edit_github_blob node (formula False False (Item hello) id None) (world 1700000000100 0) =
    (Inl (Error ''no replacements ocurred''),
     [ReposGet \<lparr>owner = ''Homebrew'', repo = ''homebrew-core''\<rparr>
        (Inr \<lparr>default_branch = ''master'', permissions_push = False\<rparr>),
      ReposGetBranch \<lparr>owner = ''Homebrew'', repo = ''homebrew-core''\<rparr> ''master''
        (Inr \<lparr>protected = False, commit_sha = ''c0ffee''\<rparr>),
      ReposCreateFork \<lparr>owner = ''Homebrew'', repo = ''homebrew-core''\<rparr>
        (Inr \<lparr>owner_login = ''bot'', fork_name = ''homebrew-core''\<rparr>),
      DateNow 1700000000100,
      GitCreateRef \<lparr>owner = ''bot'', repo = ''homebrew-core''\<rparr>
        ''refs/heads/update-hello.rb-1700000000'' ''c0ffee'' (Inr ()),
      ReposGetContents \<lparr>owner = ''bot'', repo = ''homebrew-core''\<rparr>
        ''Formula/hello.rb'' ''update-hello.rb-1700000000'' (Inr (Item hello))],
     world 1700000000100 0)"
  by (simp add: sim_defs run_defs)

lemma run_protected:
  "edit_github_blob node (formula True True (Item hello) exclaim None) (world 1700000000400 0) =
    (Inr ''https://github.com/Homebrew/homebrew-core/pull/1'',
     [ReposGet \<lparr>owner = ''Homebrew'', repo = ''homebrew-core''\<rparr>
        (Inr \<lparr>default_branch = ''master'', permissions_push = True\<rparr>),
      ReposGetBranch \<lparr>owner = ''Homebrew'', repo = ''homebrew-core''\<rparr> ''master''
        (Inr \<lparr>protected = True, commit_sha = ''c0ffee''\<rparr>),
      DateNow 1700000000400,
      GitCreateRef \<lparr>owner = ''Homebrew'', repo = ''homebrew-core''\<rparr>
        ''refs/heads/update-hello.rb-1700000000'' ''c0ffee'' (Inr ()),
      ReposGetContents \<lparr>owner = ''Homebrew'', repo = ''homebrew-core''\<rparr>
        ''Formula/hello.rb'' ''update-hello.rb-1700000000'' (Inr (Item hello)),
      ReposCreateOrUpdateFile \<lparr>owner = ''Homebrew'', repo = ''homebrew-core''\<rparr>
        ''Formula/hello.rb'' ''Update Formula/hello.rb'' ''aGVsbG8h'' ''abc''
        ''update-hello.rb-1700000000''
        (Inr ''https://github.com/Homebrew/homebrew-core/commit/1''),
      PullsCreate \<lparr>owner = ''Homebrew'', repo = ''homebrew-core''\<rparr> ''master''
        ''Homebrew:update-hello.rb-1700000000'' ''Update Formula/hello.rb'' []
        (Inr ''https://github.com/Homebrew/homebrew-core/pull/1'')],
     world 1700000000400 0)"
  by (simp add: sim_defs run_defs)

lemma run_direct_no_content:
  "edit_github_blob node
     (formula True False (Item \<lparr>content = None, sha = ''abc''\<rparr>) exclaim None)
     (world 1700000000400 0) =
    (Inr ''https://github.com/Homebrew/homebrew-core/commit/1'',
     [ReposGet \<lparr>owner = ''Homebrew'', repo = ''homebrew-core''\<rparr>
        (Inr \<lparr>default_branch = ''master'', permissions_push = True\<rparr>),
      ReposGetBranch \<lparr>owner = ''Homebrew'', repo = ''homebrew-core''\<rparr> ''master''
        (Inr \<lparr>protected = False, commit_sha = ''c0ffee''\<rparr>),
      ReposGetContents \<lparr>owner = ''Homebrew'', repo = ''homebrew-core''\<rparr>
        ''Formula/hello.rb'' ''master'' (Inr (Item \<lparr>content = None, sha = ''abc''\<rparr>)),
      ReposCreateOrUpdateFile \<lparr>owner = ''Homebrew'', repo = ''homebrew-core''\<rparr>
        ''Formula/hello.rb'' ''Update Formula/hello.rb'' ''IQ=='' ''abc'' ''master''
        (Inr ''https://github.com/Homebrew/homebrew-core/commit/1'')],
     world 1700000000400 0)"
  by (simp add: sim_defs run_defs)

section \<open>An edit that changes nothing\<close>

text \<open>
  Claim C1, as amended. Whenever the file is fetched and \<open>replace\<close> returns its decoded
  content unchanged, the operation fails with the error \<open>no replacements ocurred\<close>, and
  it does so before the file is committed and before a pull request is opened. On the
  direct path (push permission, unprotected branch) no write request is made at all.
  The fork and the head branch, where the run needs them, are created before the file
  is fetched, so they are not covered.
\<close>

theorem C1_unchanged_fails_before_commit:
  assumes "ReposGetContents headRepo path ref (Inr (Item fd))
             \<in> set (events (edit_github_blob rt params w))"
    and "replace params (oldContent_of rt fd) = oldContent_of rt fd"
  shows "result (edit_github_blob rt params w) = Inl (Error ''no replacements ocurred'')
       \<and> (\<forall>e \<in> set (events (edit_github_blob rt params w)). \<not> is_commit_or_pull e)
       \<and> (\<forall>r b. ReposGet (baseRepo_of params) (Inr r)
                    \<in> set (events (edit_github_blob rt params w))
              \<and> permissions_push r
              \<and> ReposGetBranch (baseRepo_of params) (baseBranch_of params r) (Inr b)
                    \<in> set (events (edit_github_blob rt params w))
              \<and> \<not> protected b
            \<longrightarrow> (\<forall>e \<in> set (events (edit_github_blob rt params w)). \<not> is_write e))"
proof -
  obtain res evs w' where run: "edit_github_blob rt params w = (res, evs, w')"
    by (rule run_cases)
  from run show ?thesis
  proof (cases rule: run_shape)
    case (unchanged r b f ms rs fd')
    then show ?thesis unfolding run
      by (auto simp: no_change_def fetch_event_def dest: commit_or_pull_notin_start
          direct_start_no_write)
  qed (use assms in \<open>auto simp: run fetch_event_def commit_event_def pull_event_def\<close>)
qed

theorem C1_unchanged_fails_before_commit_witness:
  "ReposGetContents \<lparr>owner = ''Homebrew'', repo = ''homebrew-core''\<rparr> ''Formula/hello.rb''
       ''master'' (Inr (Item hello))
     \<in> set (events (edit_github_blob node (formula True False (Item hello) id None)
                      (world 1700000000400 0)))
   \<and> replace (formula True False (Item hello) id None) (oldContent_of node hello)
       = oldContent_of node hello
   \<and> result (edit_github_blob node (formula True False (Item hello) id None)
               (world 1700000000400 0))
       = Inl (Error ''no replacements ocurred'')
   \<and> filter is_write (events (edit_github_blob node (formula True False (Item hello) id None)
               (world 1700000000400 0))) = []"
proof -
  have h1: "ReposGetContents \<lparr>owner = ''Homebrew'', repo = ''homebrew-core''\<rparr>
       ''Formula/hello.rb'' ''master'' (Inr (Item hello))
     \<in> set (events (edit_github_blob node (formula True False (Item hello) id None)
                      (world 1700000000400 0)))"
    by (simp add: run_direct_unchanged)
  have h2: "replace (formula True False (Item hello) id None) (oldContent_of node hello)
       = oldContent_of node hello"
    by (simp add: formula_def)
  from C1_unchanged_fails_before_commit[OF h1 h2] h1 h2 show ?thesis
    by (simp add: run_direct_unchanged)
qed

text \<open>
  The claim as stated, that no write at all precedes the failure, is false: without push
  permission the fork and the head branch have been created when the unchanged content
  is detected.
\<close>

theorem C1_writes_before_no_change_counterexample:
  "replace (formula False False (Item hello) id None) (oldContent_of node hello)
       = oldContent_of node hello
   \<and> result (edit_github_blob node (formula False False (Item hello) id None)
               (world 1700000000400 0))
       = Inl (Error ''no replacements ocurred'')
   \<and> filter is_write (events (edit_github_blob node (formula False False (Item hello) id None)
               (world 1700000000400 0)))
       = [ReposCreateFork \<lparr>owner = ''Homebrew'', repo = ''homebrew-core''\<rparr>
            (Inr \<lparr>owner_login = ''bot'', fork_name = ''homebrew-core''\<rparr>),
          GitCreateRef \<lparr>owner = ''bot'', repo = ''homebrew-core''\<rparr>
            ''refs/heads/update-hello.rb-1700000000'' ''c0ffee'' (Inr ())]"
proof -
  have "replace (formula False False (Item hello) id None) (oldContent_of node hello)
       = oldContent_of node hello"
    by (simp add: formula_def)
  then show ?thesis by (simp add: run_fork_unchanged)
qed

section \<open>A path that is a directory\<close>

text \<open>
  Claim C5, as amended. Whenever the content fetched at \<open>filePath\<close> is a directory
  listing, the operation fails with the error \<open>expected '<filePath>' is a file, got a
  directory\<close>, before the file is committed and before a pull request is opened. On the
  direct path (push permission, unprotected branch) no write request is made at all.
  The fork and the head branch, where the run needs them, are created before the
  content is fetched, so they are not covered.
\<close>

theorem C5_directory_fails_before_commit:
  assumes "ReposGetContents headRepo path ref (Inr (Listing entries))
             \<in> set (events (edit_github_blob rt params w))"
  shows "result (edit_github_blob rt params w)
           = Inl (Error (''expected '' @ [CHR 0x27] @ filePath params @ [CHR 0x27]
                           @ '' is a file, got a directory''))
       \<and> (\<forall>e \<in> set (events (edit_github_blob rt params w)). \<not> is_commit_or_pull e)
       \<and> (\<forall>r b. ReposGet (baseRepo_of params) (Inr r)
                    \<in> set (events (edit_github_blob rt params w))
              \<and> permissions_push r
              \<and> ReposGetBranch (baseRepo_of params) (baseBranch_of params r) (Inr b)
                    \<in> set (events (edit_github_blob rt params w))
              \<and> \<not> protected b
            \<longrightarrow> (\<forall>e \<in> set (events (edit_github_blob rt params w)). \<not> is_write e))"
proof -
  obtain res evs w' where run: "edit_github_blob rt params w = (res, evs, w')"
    by (rule run_cases)
  from run show ?thesis
  proof (cases rule: run_shape)
    case (directory r b f ms rs entries')
    then show ?thesis unfolding run
      by (auto simp: not_a_file_def fetch_event_def dest: commit_or_pull_notin_start
          direct_start_no_write)
  qed (use assms in \<open>auto simp: run fetch_event_def commit_event_def pull_event_def\<close>)
qed

theorem C5_directory_fails_before_commit_witness:
  "ReposGetContents \<lparr>owner = ''Homebrew'', repo = ''homebrew-core''\<rparr> ''Formula/hello.rb''
       ''master'' (Inr (Listing [''Formula/hello.rb/a'']))
     \<in> set (events (edit_github_blob node
                      (formula True False (Listing [''Formula/hello.rb/a'']) exclaim None)
                      (world 1700000000400 0)))
   \<and> result (edit_github_blob node
               (formula True False (Listing [''Formula/hello.rb/a'']) exclaim None)
               (world 1700000000400 0))
       = Inl (Error ''expected 'Formula/hello.rb' is a file, got a directory'')
   \<and> filter is_write (events (edit_github_blob node
               (formula True False (Listing [''Formula/hello.rb/a'']) exclaim None)
               (world 1700000000400 0))) = []"
proof -
  have h1: "ReposGetContents \<lparr>owner = ''Homebrew'', repo = ''homebrew-core''\<rparr>
       ''Formula/hello.rb'' ''master'' (Inr (Listing [''Formula/hello.rb/a'']))
     \<in> set (events (edit_github_blob node
                      (formula True False (Listing [''Formula/hello.rb/a'']) exclaim None)
                      (world 1700000000400 0)))"
    by (simp add: run_direct_directory)
  from C5_directory_fails_before_commit[OF h1] h1 show ?thesis
    by (simp add: run_direct_directory)
qed

text \<open>
  The claim as stated, that no write at all precedes the failure, is false: without push
  permission the fork and the head branch have been created when the listing arrives.
\<close>

theorem C5_writes_before_not_a_file_counterexample:
  "result (edit_github_blob node
             (formula False False (Listing [''Formula/hello.rb/a'']) exclaim None)
             (world 1700000000400 0))
       = Inl (Error ''expected 'Formula/hello.rb' is a file, got a directory'')
   \<and> filter is_write (events (edit_github_blob node
             (formula False False (Listing [''Formula/hello.rb/a'']) exclaim None)
             (world 1700000000400 0)))
       = [ReposCreateFork \<lparr>owner = ''Homebrew'', repo = ''homebrew-core''\<rparr>
            (Inr \<lparr>owner_login = ''bot'', fork_name = ''homebrew-core''\<rparr>),
          GitCreateRef \<lparr>owner = ''bot'', repo = ''homebrew-core''\<rparr>
            ''refs/heads/update-hello.rb-1700000000'' ''c0ffee'' (Inr ())]"
  by (simp add: run_fork_directory)

section \<open>The direct path\<close>

text \<open>
  Claim C4. In every run where the credential has push permission and the base branch is
  not protected, the only requests after the two look-ups are the fetch of the file and
  its commit, both addressed to the base repository and the base branch: no fork, no
  ref and no pull request is created. When the run returns, its effects are exactly the
  two look-ups, the fetch and the commit, and the result is the URL that the commit
  request answered with.
\<close>

theorem C4_direct_commit:
  assumes "ReposGet (baseRepo_of params) (Inr r) \<in> set (events (edit_github_blob rt params w))"
    and "permissions_push r"
    and "ReposGetBranch (baseRepo_of params) (baseBranch_of params r) (Inr b)
           \<in> set (events (edit_github_blob rt params w))"
    and "\<not> protected b"
  shows "(\<exists>rest. events (edit_github_blob rt params w)
             = [ReposGet (baseRepo_of params) (Inr r),
                ReposGetBranch (baseRepo_of params) (baseBranch_of params r) (Inr b)] @ rest
           \<and> (\<forall>e \<in> set rest.
                 (\<exists>x. e = ReposGetContents (baseRepo_of params) (filePath params)
                            (baseBranch_of params r) x)
               \<or> (\<exists>fd x. e = ReposCreateOrUpdateFile (baseRepo_of params) (filePath params)
                            (commitMessage_of params) (newContent_base64 rt params fd) (sha fd)
                            (baseBranch_of params r) x)))
       \<and> (\<forall>url. result (edit_github_blob rt params w) = Inr url \<longrightarrow>
             (\<exists>fd. events (edit_github_blob rt params w)
                = [ReposGet (baseRepo_of params) (Inr r),
                   ReposGetBranch (baseRepo_of params) (baseBranch_of params r) (Inr b),
                   ReposGetContents (baseRepo_of params) (filePath params)
                     (baseBranch_of params r) (Inr (Item fd)),
                   ReposCreateOrUpdateFile (baseRepo_of params) (filePath params)
                     (commitMessage_of params) (newContent_base64 rt params fd) (sha fd)
                     (baseBranch_of params r) (Inr url)]))"
proof -
  obtain res evs w' where run: "edit_github_blob rt params w = (res, evs, w')"
    by (rule run_cases)
  have direct: "\<not> needsFork r" "\<not> needsPr r b"
    using assms(2,4) by (simp_all add: needsFork_def needsPr_def)
  note shapes = start_events_def fetch_event_def commit_event_def headRepo_of_def
    headBranch_of_def
  from run assms(1,3)[unfolded run events_simp] show ?thesis
  proof (cases rule: run_shape_resolved)
    case (getContents_rejected f ms rs e)
    with direct show ?thesis unfolding run by (simp add: shapes)
  next
    case (directory f ms rs entries)
    with direct show ?thesis unfolding run by (simp add: shapes)
  next
    case (unchanged f ms rs fd)
    with direct show ?thesis unfolding run by (simp add: shapes)
  next
    case (commit_rejected f ms rs fd e)
    with direct show ?thesis unfolding run by (auto simp: shapes)
  next
    case (committed f ms rs fd url)
    with direct show ?thesis unfolding run by (auto simp: shapes)
  qed (use direct in simp_all)
qed


theorem C4_direct_commit_witness:
  "ReposGet (baseRepo_of (formula True False (Item hello) exclaim None))
       (Inr \<lparr>default_branch = ''master'', permissions_push = True\<rparr>)
     \<in> set (events (edit_github_blob node (formula True False (Item hello) exclaim None)
                      (world 1700000000400 0)))
   \<and> permissions_push \<lparr>default_branch = ''master'', permissions_push = True\<rparr>
   \<and> ReposGetBranch (baseRepo_of (formula True False (Item hello) exclaim None))
       (baseBranch_of (formula True False (Item hello) exclaim None)
          \<lparr>default_branch = ''master'', permissions_push = True\<rparr>)
       (Inr \<lparr>protected = False, commit_sha = ''c0ffee''\<rparr>)
     \<in> set (events (edit_github_blob node (formula True False (Item hello) exclaim None)
                      (world 1700000000400 0)))
   \<and> \<not> protected \<lparr>protected = False, commit_sha = ''c0ffee''\<rparr>
   \<and> result (edit_github_blob node (formula True False (Item hello) exclaim None)
               (world 1700000000400 0))
       = Inr ''https://github.com/Homebrew/homebrew-core/commit/1''
   \<and> filter is_write (events (edit_github_blob node
               (formula True False (Item hello) exclaim None) (world 1700000000400 0)))
       = [ReposCreateOrUpdateFile \<lparr>owner = ''Homebrew'', repo = ''homebrew-core''\<rparr>
            ''Formula/hello.rb'' ''Update Formula/hello.rb'' ''aGVsbG8h'' ''abc'' ''master''
            (Inr ''https://github.com/Homebrew/homebrew-core/commit/1'')]"
proof -
  have h1: "ReposGet (baseRepo_of (formula True False (Item hello) exclaim None))
       (Inr \<lparr>default_branch = ''master'', permissions_push = True\<rparr>)
     \<in> set (events (edit_github_blob node (formula True False (Item hello) exclaim None)
                      (world 1700000000400 0)))"
    by (simp add: run_direct) (simp add: baseRepo_of_def formula_def)
  have h2: "permissions_push \<lparr>default_branch = ''master'', permissions_push = True\<rparr>"
    by simp
  have h3: "ReposGetBranch (baseRepo_of (formula True False (Item hello) exclaim None))
       (baseBranch_of (formula True False (Item hello) exclaim None)
          \<lparr>default_branch = ''master'', permissions_push = True\<rparr>)
       (Inr \<lparr>protected = False, commit_sha = ''c0ffee''\<rparr>)
     \<in> set (events (edit_github_blob node (formula True False (Item hello) exclaim None)
                      (world 1700000000400 0)))"
    by (simp add: run_direct) (simp add: baseRepo_of_def baseBranch_of_def formula_def)
  have h4: "\<not> protected \<lparr>protected = False, commit_sha = ''c0ffee''\<rparr>"
    by simp
  from C4_direct_commit[OF h1 h2 h3 h4] h1 h2 h3 h4 show ?thesis
    by (simp add: run_direct)
qed

section \<open>The fork path\<close>

text \<open>
  Claim C3. In every run in which the credential lacks push permission on the base
  repository and the branch look-up is answered, a fork of the base repository is
  requested; every later request on the head branch (the ref creation, the fetch and
  the commit) is addressed to the fork that was created, and every ref creation points
  at the head commit of the base branch. Every such run that returns has exactly these
  effects, in this order: the two look-ups; the creation of the fork; the clock reading
  that names the head branch; the attempts to create that branch in the fork, the last
  of which succeeds; the fetch of the file from the fork's new branch; its commit
  there; and the pull request on the base repository from \<open>forkOwner:headBranch\<close> into
  the base branch. The result is the URL that the pull request answered with.
\<close>

theorem C3_fork_and_pull_request:
  assumes "ReposGet (baseRepo_of params) (Inr r) \<in> set (events (edit_github_blob rt params w))"
    and "\<not> permissions_push r"
  shows "(\<forall>repo2 branch2 b.
            ReposGetBranch repo2 branch2 (Inr b) \<in> set (events (edit_github_blob rt params w))
            \<longrightarrow>
              (\<exists>answer. ReposCreateFork (baseRepo_of params) answer
                  \<in> set (events (edit_github_blob rt params w)))
            \<and> (\<forall>e \<in> set (events (edit_github_blob rt params w)).
                  \<forall>headRepo. head_repo e = Some headRepo \<longrightarrow>
                    (\<exists>f. ReposCreateFork (baseRepo_of params) (Inr f)
                           \<in> set (events (edit_github_blob rt params w))
                       \<and> headRepo = \<lparr>owner = owner_login f, repo = fork_name f\<rparr>))
            \<and> (\<forall>headRepo ref commitSha answer.
                  GitCreateRef headRepo ref commitSha answer
                    \<in> set (events (edit_github_blob rt params w))
                  \<longrightarrow> commitSha = commit_sha b))
       \<and> (\<forall>url. result (edit_github_blob rt params w) = Inr url \<longrightarrow>
            (\<exists>b f ms rs fd commitUrl headBranch.
                headBranch = ''update-'' @ basename rt (filePath params) @ ''-''
                               @ Number_toString (Math_round (real_of_int ms / 1000))
              \<and> rs \<noteq> [] \<and> last rs = Inr ()
              \<and> events (edit_github_blob rt params w) =
                  [ReposGet (baseRepo_of params) (Inr r),
                   ReposGetBranch (baseRepo_of params) (baseBranch_of params r) (Inr b),
                   ReposCreateFork (baseRepo_of params) (Inr f),
                   DateNow ms]
                  @ ref_events \<lparr>owner = owner_login f, repo = fork_name f\<rparr> headBranch
                      (commit_sha b) rs
                  @ [ReposGetContents \<lparr>owner = owner_login f, repo = fork_name f\<rparr>
                       (filePath params) headBranch (Inr (Item fd)),
                     ReposCreateOrUpdateFile \<lparr>owner = owner_login f, repo = fork_name f\<rparr>
                       (filePath params) (commitMessage_of params)
                       (newContent_base64 rt params fd) (sha fd) headBranch (Inr commitUrl),
                     PullsCreate (baseRepo_of params) (baseBranch_of params r)
                       (owner_login f @ '':'' @ headBranch) (title_of (commitMessage_of params))
                       (body_of (commitMessage_of params)) (Inr url)]))"
proof -
  obtain res evs w' where run: "edit_github_blob rt params w = (res, evs, w')"
    by (rule run_cases)
  note r = assms(1)[unfolded run events_simp]
  show ?thesis unfolding run events_simp result_simp
  proof (intro conjI allI impI)
    fix repo2 branch2 b
    assume b: "ReposGetBranch repo2 branch2 (Inr b) \<in> set evs"
    note all = fork_is_head_repo[OF run r assms(2) b]
    from all show "\<exists>answer. ReposCreateFork (baseRepo_of params) answer \<in> set evs"
      by (rule conjunct1)
    from all show "\<forall>e \<in> set evs. \<forall>headRepo. head_repo e = Some headRepo \<longrightarrow>
        (\<exists>f. ReposCreateFork (baseRepo_of params) (Inr f) \<in> set evs
           \<and> headRepo = \<lparr>owner = owner_login f, repo = fork_name f\<rparr>)"
      by (rule conjunct2[THEN conjunct1])
    fix headRepo ref commitSha answer
    assume "GitCreateRef headRepo ref commitSha answer \<in> set evs"
    with all show "commitSha = commit_sha b" by blast
  next
    fix url
    assume "res = Inr url"
    from fork_run_returns[OF run r assms(2) this]
    show "\<exists>b f ms rs fd commitUrl headBranch.
        headBranch = ''update-'' @ basename rt (filePath params) @ ''-''
                       @ Number_toString (Math_round (real_of_int ms / 1000))
      \<and> rs \<noteq> [] \<and> last rs = Inr ()
      \<and> evs =
          [ReposGet (baseRepo_of params) (Inr r),
           ReposGetBranch (baseRepo_of params) (baseBranch_of params r) (Inr b),
           ReposCreateFork (baseRepo_of params) (Inr f),
           DateNow ms]
          @ ref_events \<lparr>owner = owner_login f, repo = fork_name f\<rparr> headBranch
              (commit_sha b) rs
          @ [ReposGetContents \<lparr>owner = owner_login f, repo = fork_name f\<rparr>
               (filePath params) headBranch (Inr (Item fd)),
             ReposCreateOrUpdateFile \<lparr>owner = owner_login f, repo = fork_name f\<rparr>
               (filePath params) (commitMessage_of params)
               (newContent_base64 rt params fd) (sha fd) headBranch (Inr commitUrl),
             PullsCreate (baseRepo_of params) (baseBranch_of params r)
               (owner_login f @ '':'' @ headBranch) (title_of (commitMessage_of params))
               (body_of (commitMessage_of params)) (Inr url)]" .
  qed
qed

theorem C3_fork_and_pull_request_witness:
  "ReposGet (baseRepo_of (formula False False (Item hello) exclaim None))
       (Inr \<lparr>default_branch = ''master'', permissions_push = False\<rparr>)
     \<in> set (events (edit_github_blob node (formula False False (Item hello) exclaim None)
                      (world 1700000000400 2)))
   \<and> \<not> permissions_push \<lparr>default_branch = ''master'', permissions_push = False\<rparr>
   \<and> ReposGetBranch \<lparr>owner = ''Homebrew'', repo = ''homebrew-core''\<rparr> ''master''
       (Inr \<lparr>protected = False, commit_sha = ''c0ffee''\<rparr>)
     \<in> set (events (edit_github_blob node (formula False False (Item hello) exclaim None)
                      (world 1700000000400 2)))
   \<and> (\<exists>answer. ReposCreateFork (baseRepo_of (formula False False (Item hello) exclaim None))
                  answer
         \<in> set (events (edit_github_blob node (formula False False (Item hello) exclaim None)
                          (world 1700000000400 2))))
   \<and> result (edit_github_blob node (formula False False (Item hello) exclaim None)
               (world 1700000000400 2))
       = Inr ''https://github.com/Homebrew/homebrew-core/pull/1''
   \<and> filter is_write (events (edit_github_blob node
               (formula False False (Item hello) exclaim None) (world 1700000000400 2)))
       = [ReposCreateFork \<lparr>owner = ''Homebrew'', repo = ''homebrew-core''\<rparr>
            (Inr \<lparr>owner_login = ''bot'', fork_name = ''homebrew-core''\<rparr>),
          GitCreateRef \<lparr>owner = ''bot'', repo = ''homebrew-core''\<rparr>
            ''refs/heads/update-hello.rb-1700000000'' ''c0ffee''
            (Inl ''Reference update failed''),
          GitCreateRef \<lparr>owner = ''bot'', repo = ''homebrew-core''\<rparr>
            ''refs/heads/update-hello.rb-1700000000'' ''c0ffee''
            (Inl ''Reference update failed''),
          GitCreateRef \<lparr>owner = ''bot'', repo = ''homebrew-core''\<rparr>
            ''refs/heads/update-hello.rb-1700000000'' ''c0ffee'' (Inr ()),
          ReposCreateOrUpdateFile \<lparr>owner = ''bot'', repo = ''homebrew-core''\<rparr>
            ''Formula/hello.rb'' ''Update Formula/hello.rb'' ''aGVsbG8h'' ''abc''
            ''update-hello.rb-1700000000''
            (Inr ''https://github.com/bot/homebrew-core/commit/1''),
          PullsCreate \<lparr>owner = ''Homebrew'', repo = ''homebrew-core''\<rparr> ''master''
            ''bot:update-hello.rb-1700000000'' ''Update Formula/hello.rb'' []
            (Inr ''https://github.com/Homebrew/homebrew-core/pull/1'')]"
proof -
  have h1: "ReposGet (baseRepo_of (formula False False (Item hello) exclaim None))
       (Inr \<lparr>default_branch = ''master'', permissions_push = False\<rparr>)
     \<in> set (events (edit_github_blob node (formula False False (Item hello) exclaim None)
                      (world 1700000000400 2)))"
    by (simp add: run_fork) (simp add: baseRepo_of_def formula_def)
  have h2: "\<not> permissions_push \<lparr>default_branch = ''master'', permissions_push = False\<rparr>"
    by simp
  have h3: "ReposGetBranch \<lparr>owner = ''Homebrew'', repo = ''homebrew-core''\<rparr> ''master''
       (Inr \<lparr>protected = False, commit_sha = ''c0ffee''\<rparr>)
     \<in> set (events (edit_github_blob node (formula False False (Item hello) exclaim None)
                      (world 1700000000400 2)))"
    by (simp add: run_fork)
  note c3 = C3_fork_and_pull_request[OF h1 h2]
  from c3 h3
  have h4: "\<exists>answer. ReposCreateFork (baseRepo_of (formula False False (Item hello) exclaim None))
                  answer
         \<in> set (events (edit_github_blob node (formula False False (Item hello) exclaim None)
                          (world 1700000000400 2)))"
    by blast
  have h5: "result (edit_github_blob node (formula False False (Item hello) exclaim None)
               (world 1700000000400 2))
       = Inr ''https://github.com/Homebrew/homebrew-core/pull/1''"
    by (simp add: run_fork)
  have h6: "filter is_write (events (edit_github_blob node
               (formula False False (Item hello) exclaim None) (world 1700000000400 2)))
       = [ReposCreateFork \<lparr>owner = ''Homebrew'', repo = ''homebrew-core''\<rparr>
            (Inr \<lparr>owner_login = ''bot'', fork_name = ''homebrew-core''\<rparr>),
          GitCreateRef \<lparr>owner = ''bot'', repo = ''homebrew-core''\<rparr>
            ''refs/heads/update-hello.rb-1700000000'' ''c0ffee''
            (Inl ''Reference update failed''),
          GitCreateRef \<lparr>owner = ''bot'', repo = ''homebrew-core''\<rparr>
            ''refs/heads/update-hello.rb-1700000000'' ''c0ffee''
            (Inl ''Reference update failed''),
          GitCreateRef \<lparr>owner = ''bot'', repo = ''homebrew-core''\<rparr>
            ''refs/heads/update-hello.rb-1700000000'' ''c0ffee'' (Inr ()),
          ReposCreateOrUpdateFile \<lparr>owner = ''bot'', repo = ''homebrew-core''\<rparr>
            ''Formula/hello.rb'' ''Update Formula/hello.rb'' ''aGVsbG8h'' ''abc''
            ''update-hello.rb-1700000000''
            (Inr ''https://github.com/bot/homebrew-core/commit/1''),
          PullsCreate \<lparr>owner = ''Homebrew'', repo = ''homebrew-core''\<rparr> ''master''
            ''bot:update-hello.rb-1700000000'' ''Update Formula/hello.rb'' []
            (Inr ''https://github.com/Homebrew/homebrew-core/pull/1'')]"
    by (simp add: run_fork)
  from h1 h2 h3 h4 h5 h6 show ?thesis by (intro conjI)
qed

section \<open>Retrying the ref creation\<close>




section \<open>Title and body of the pull request\<close>

text \<open>
  Claim C7. The title and the body of every pull request that a run opens are the
  commit message cut at its first blank line (the first occurrence of two line feeds):
  the title is what stands before it and the body is everything after it, later blank
  lines included. A message without a blank line is the title, and the body is empty.
  The message \<open>Fix typo\<close>, blank line, \<open>Details here\<close> gives the title \<open>Fix typo\<close>
  and the body \<open>Details here\<close>.
\<close>

theorem C7_pull_request_title_and_body:
  assumes "PullsCreate baseRepo baseBranch headLabel title body answer
             \<in> set (events (edit_github_blob rt params w))"
  shows "title = title_of (commitMessage_of params) \<and> body = body_of (commitMessage_of params)
       \<and> ((\<forall>i. \<not> prefix ''\<newline>\<newline>'' (drop i (commitMessage_of params)))
            \<longrightarrow> title = commitMessage_of params \<and> body = [])
       \<and> (\<forall>u v. commitMessage_of params = u @ ''\<newline>\<newline>'' @ v
              \<and> (\<forall>i<length u. \<not> prefix ''\<newline>\<newline>'' (drop i (commitMessage_of params)))
            \<longrightarrow> title = u \<and> body = v)
       \<and> title_of ''Fix typo\<newline>\<newline>Details here'' = ''Fix typo''
       \<and> body_of ''Fix typo\<newline>\<newline>Details here'' = ''Details here''"
proof -
  obtain res evs w' where run: "edit_github_blob rt params w = (res, evs, w')"
    by (rule run_cases)
  from run have "title = title_of (commitMessage_of params)
       \<and> body = body_of (commitMessage_of params)"
  proof (cases rule: run_shape)
    case (pull_rejected r b f ms rs fd commitUrl e)
    with assms show ?thesis
      by (auto simp: run fetch_event_def commit_event_def pull_event_def
          dest: commit_or_pull_notin_start)
  next
    case (pull_opened r b f ms rs fd commitUrl url)
    with assms show ?thesis
      by (auto simp: run fetch_event_def commit_event_def pull_event_def
          dest: commit_or_pull_notin_start)
  qed (use assms in \<open>auto simp: run fetch_event_def commit_event_def
        dest: commit_or_pull_notin_start\<close>)
  then show ?thesis
    using title_body_no_blank_line[of "commitMessage_of params"]
      title_body_first_blank_line[of "commitMessage_of params"] title_body_example
    by blast
qed


theorem C7_pull_request_title_and_body_witness:
  "PullsCreate \<lparr>owner = ''Homebrew'', repo = ''homebrew-core''\<rparr> ''master''
       ''bot:update-hello.rb-1700000000'' ''Fix typo'' ''Details here''
       (Inr ''https://github.com/Homebrew/homebrew-core/pull/1'')
     \<in> set (events (edit_github_blob node
          (formula False False (Item hello) exclaim
             (Some ''Fix typo\<newline>\<newline>Details here''))
          (world 1700000000400 0)))
   \<and> commitMessage_of (formula False False (Item hello) exclaim
             (Some ''Fix typo\<newline>\<newline>Details here''))
       = ''Fix typo'' @ ''\<newline>\<newline>'' @ ''Details here''
   \<and> title_of (commitMessage_of (formula False False (Item hello) exclaim
             (Some ''Fix typo\<newline>\<newline>Details here''))) = ''Fix typo''
   \<and> body_of (commitMessage_of (formula False False (Item hello) exclaim
             (Some ''Fix typo\<newline>\<newline>Details here''))) = ''Details here''"
proof -
  have h: "PullsCreate \<lparr>owner = ''Homebrew'', repo = ''homebrew-core''\<rparr> ''master''
       ''bot:update-hello.rb-1700000000'' ''Fix typo'' ''Details here''
       (Inr ''https://github.com/Homebrew/homebrew-core/pull/1'')
     \<in> set (events (edit_github_blob node
          (formula False False (Item hello) exclaim
             (Some ''Fix typo\<newline>\<newline>Details here''))
          (world 1700000000400 0)))"
    by (simp add: run_fork_message)
  have m: "commitMessage_of (formula False False (Item hello) exclaim
             (Some ''Fix typo\<newline>\<newline>Details here''))
       = ''Fix typo'' @ ''\<newline>\<newline>'' @ ''Details here''"
    by (simp add: commitMessage_of_def formula_def)
  note c7 = C7_pull_request_title_and_body[OF h]
  from c7 have t: "title_of (commitMessage_of (formula False False (Item hello) exclaim
             (Some ''Fix typo\<newline>\<newline>Details here''))) = ''Fix typo''"
    by (rule conjunct1[THEN sym])
  from c7 have b: "body_of (commitMessage_of (formula False False (Item hello) exclaim
             (Some ''Fix typo\<newline>\<newline>Details here''))) = ''Details here''"
    by (rule conjunct2[THEN conjunct1, THEN sym])
  from h m t b show ?thesis by (intro conjI)
qed

section \<open>A file without content\<close>

text \<open>
  Claim C8. When the fetched file carries no \<open>content\<close> field, or an empty one, the
  encoded content is taken to be the empty string; with a decoder that gives the empty
  text for it (as Node's does), the old content is the empty string and \<open>replace\<close> is
  applied to it. The run does not fail for the missing content: it fails as unchanged
  when \<open>replace\<close> returns the empty string, and otherwise goes on to commit what
  \<open>replace\<close> returned.
\<close>

theorem C8_missing_content_is_empty:
  assumes "ReposGetContents headRepo path ref (Inr (Item fd))
             \<in> set (events (edit_github_blob rt params w))"
    and "\<not> truthy (content fd)"
    and "Buffer_toString_utf8 rt (Buffer_from_base64 rt '''') = ''''"
  shows "oldContent_of rt fd = ''''
       \<and> (replace params '''' = ''''
            \<longrightarrow> result (edit_github_blob rt params w) = Inl (Error ''no replacements ocurred''))
       \<and> (replace params '''' \<noteq> ''''
            \<longrightarrow> (\<exists>answer. ReposCreateOrUpdateFile headRepo path (commitMessage_of params)
                    (Buffer_toString_base64 rt (Buffer_from_utf8 rt (replace params '''')))
                    (sha fd) ref answer
                  \<in> set (events (edit_github_blob rt params w))))"
proof -
  obtain res evs w' where run: "edit_github_blob rt params w = (res, evs, w')"
    by (rule run_cases)
  from assms(2,3) have old: "oldContent_of rt fd = ''''"
    by (simp add: oldContent_of_def)
  note shapes = fetch_event_def commit_event_def pull_event_def newContent_base64_def
    no_change_def
  from run have "(replace params '''' = '''' \<longrightarrow> res = Inl (Error ''no replacements ocurred''))
       \<and> (replace params '''' \<noteq> ''''
            \<longrightarrow> (\<exists>answer. ReposCreateOrUpdateFile headRepo path (commitMessage_of params)
                    (Buffer_toString_base64 rt (Buffer_from_utf8 rt (replace params '''')))
                    (sha fd) ref answer \<in> set evs))"
  proof (cases rule: run_shape)
    case (unchanged r b f ms rs fd')
    with assms(1) old show ?thesis by (auto simp: run shapes)
  next
    case (commit_rejected r b f ms rs fd' e)
    with assms(1) old show ?thesis by (auto simp: run shapes)
  next
    case (committed r b f ms rs fd' url)
    with assms(1) old show ?thesis by (auto simp: run shapes)
  next
    case (pull_rejected r b f ms rs fd' commitUrl e)
    with assms(1) old show ?thesis by (auto simp: run shapes)
  next
    case (pull_opened r b f ms rs fd' commitUrl url)
    with assms(1) old show ?thesis by (auto simp: run shapes)
  qed (use assms(1) in \<open>auto simp: run shapes\<close>)
  with old show ?thesis by (simp add: run)
qed

theorem C8_missing_content_is_empty_witness:
  "ReposGetContents \<lparr>owner = ''Homebrew'', repo = ''homebrew-core''\<rparr> ''Formula/hello.rb''
       ''master'' (Inr (Item \<lparr>content = None, sha = ''abc''\<rparr>))
     \<in> set (events (edit_github_blob node
          (formula True False (Item \<lparr>content = None, sha = ''abc''\<rparr>) exclaim None)
          (world 1700000000400 0)))
   \<and> \<not> truthy (content \<lparr>content = None, sha = ''abc''\<rparr>)
   \<and> Buffer_toString_utf8 node (Buffer_from_base64 node '''') = ''''
   \<and> replace (formula True False (Item \<lparr>content = None, sha = ''abc''\<rparr>) exclaim None) ''''
       = ''!''
   \<and> oldContent_of node \<lparr>content = None, sha = ''abc''\<rparr> = ''''
   \<and> result (edit_github_blob node
          (formula True False (Item \<lparr>content = None, sha = ''abc''\<rparr>) exclaim None)
          (world 1700000000400 0))
       = Inr ''https://github.com/Homebrew/homebrew-core/commit/1''"
proof -
  have h1: "ReposGetContents \<lparr>owner = ''Homebrew'', repo = ''homebrew-core''\<rparr>
       ''Formula/hello.rb'' ''master'' (Inr (Item \<lparr>content = None, sha = ''abc''\<rparr>))
     \<in> set (events (edit_github_blob node
          (formula True False (Item \<lparr>content = None, sha = ''abc''\<rparr>) exclaim None)
          (world 1700000000400 0)))"
    by (simp add: run_direct_no_content)
  have h2: "\<not> truthy (content \<lparr>content = None, sha = ''abc''\<rparr>)"
    by simp
  have h3: "Buffer_toString_utf8 node (Buffer_from_base64 node '''') = ''''"
    by (simp add: sim_defs)
  have r: "replace (formula True False (Item \<lparr>content = None, sha = ''abc''\<rparr>) exclaim None)
      '''' = ''!''"
    by (simp add: formula_def exclaim_def)
  have res: "result (edit_github_blob node
          (formula True False (Item \<lparr>content = None, sha = ''abc''\<rparr>) exclaim None)
          (world 1700000000400 0))
       = Inr ''https://github.com/Homebrew/homebrew-core/commit/1''"
    by (simp add: run_direct_no_content)
  from C8_missing_content_is_empty[OF h1 h2 h3]
  have old: "oldContent_of node \<lparr>content = None, sha = ''abc''\<rparr> = ''''"
    by (rule conjunct1)
  from h1 h2 h3 r old res show ?thesis by (intro conjI)
qed

section \<open>The default commit message\<close>

text \<open>
  Claim C10. When the caller supplies no \<open>commitMessage\<close> (or an empty one), the commit
  message is \<open>Update\<close>, a space, and \<open>filePath\<close> as given: every commit request of the
  run carries it, and the title and the body of every pull request of the run are cut
  from this same string.
\<close>

theorem C10_default_commit_message:
  assumes "\<not> truthy (commitMessage params)"
  shows "commitMessage_of params = ''Update '' @ filePath params
       \<and> (\<forall>headRepo path message newContent blobSha headBranch answer.
             ReposCreateOrUpdateFile headRepo path message newContent blobSha headBranch answer
               \<in> set (events (edit_github_blob rt params w))
             \<longrightarrow> message = ''Update '' @ filePath params)
       \<and> (\<forall>baseRepo baseBranch headLabel title body answer.
             PullsCreate baseRepo baseBranch headLabel title body answer
               \<in> set (events (edit_github_blob rt params w))
             \<longrightarrow> title = title_of (''Update '' @ filePath params)
               \<and> body = body_of (''Update '' @ filePath params))"
proof -
  obtain res evs w' where run: "edit_github_blob rt params w = (res, evs, w')"
    by (rule run_cases)
  from assms have msg: "commitMessage_of params = ''Update '' @ filePath params"
    by (simp add: commitMessage_of_def)
  note shapes = fetch_event_def commit_event_def pull_event_def
  from run have "(\<forall>headRepo path message newContent blobSha headBranch answer.
             ReposCreateOrUpdateFile headRepo path message newContent blobSha headBranch answer
               \<in> set evs
             \<longrightarrow> message = commitMessage_of params)
       \<and> (\<forall>baseRepo baseBranch headLabel title body answer.
             PullsCreate baseRepo baseBranch headLabel title body answer \<in> set evs
             \<longrightarrow> title = title_of (commitMessage_of params)
               \<and> body = body_of (commitMessage_of params))"
    by (cases rule: run_shape) (auto simp: shapes dest: commit_or_pull_notin_start)
  with msg show ?thesis by (simp add: run)
qed

theorem C10_default_commit_message_witness:
  "\<not> truthy (commitMessage (formula False False (Item hello) exclaim None))
   \<and> commitMessage_of (formula False False (Item hello) exclaim None)
       = ''Update Formula/hello.rb''
   \<and> ReposCreateOrUpdateFile \<lparr>owner = ''bot'', repo = ''homebrew-core''\<rparr>
        ''Formula/hello.rb'' ''Update Formula/hello.rb'' ''aGVsbG8h'' ''abc''
        ''update-hello.rb-1700000000'' (Inr ''https://github.com/bot/homebrew-core/commit/1'')
     \<in> set (events (edit_github_blob node (formula False False (Item hello) exclaim None)
                      (world 1700000000400 2)))
   \<and> PullsCreate \<lparr>owner = ''Homebrew'', repo = ''homebrew-core''\<rparr> ''master''
        ''bot:update-hello.rb-1700000000'' ''Update Formula/hello.rb'' []
        (Inr ''https://github.com/Homebrew/homebrew-core/pull/1'')
     \<in> set (events (edit_github_blob node (formula False False (Item hello) exclaim None)
                      (world 1700000000400 2)))"
proof -
  have h: "\<not> truthy (commitMessage (formula False False (Item hello) exclaim None))"
    by (simp add: formula_def)
  from C10_default_commit_message[OF h, of node "world 1700000000400 2"]
  have m: "commitMessage_of (formula False False (Item hello) exclaim None)
       = ''Update Formula/hello.rb''"
    by (simp add: formula_def)
  have e1: "ReposCreateOrUpdateFile \<lparr>owner = ''bot'', repo = ''homebrew-core''\<rparr>
        ''Formula/hello.rb'' ''Update Formula/hello.rb'' ''aGVsbG8h'' ''abc''
        ''update-hello.rb-1700000000'' (Inr ''https://github.com/bot/homebrew-core/commit/1'')
     \<in> set (events (edit_github_blob node (formula False False (Item hello) exclaim None)
                      (world 1700000000400 2)))"
    by (simp add: run_fork)
  have e2: "PullsCreate \<lparr>owner = ''Homebrew'', repo = ''homebrew-core''\<rparr> ''master''
        ''bot:update-hello.rb-1700000000'' ''Update Formula/hello.rb'' []
        (Inr ''https://github.com/Homebrew/homebrew-core/pull/1'')
     \<in> set (events (edit_github_blob node (formula False False (Item hello) exclaim None)
                      (world 1700000000400 2)))"
    by (simp add: run_fork)
  from h m e1 e2 show ?thesis by (intro conjI)
qed

section \<open>The two decisions\<close>

text \<open>
  Claim C9. With \<open>needsFork\<close> the negation of the push permission and \<open>needsPr\<close> its
  disjunction with the branch protection, \<open>needsFork\<close> implies \<open>needsPr\<close>, so only three
  of the four combinations occur. The run acts on exactly these: once both look-ups are
  answered, a fork is requested if and only if \<open>needsFork\<close> holds, and a run that
  returns has opened a pull request, whose URL it returns, if and only if \<open>needsPr\<close>
  holds. So no run that returns has created a fork without opening a pull request.
\<close>

theorem C9_fork_needs_pull_request:
  assumes "ReposGet repo1 (Inr r) \<in> set (events (edit_github_blob rt params w))"
    and "ReposGetBranch repo2 branch2 (Inr b) \<in> set (events (edit_github_blob rt params w))"
  shows "needsFork r = (\<not> permissions_push r)
       \<and> needsPr r b = (needsFork r \<or> protected b)
       \<and> (needsFork r \<longrightarrow> needsPr r b)
       \<and> ((\<exists>answer. ReposCreateFork (baseRepo_of params) answer
               \<in> set (events (edit_github_blob rt params w)))
            \<longleftrightarrow> needsFork r)
       \<and> (\<forall>url. result (edit_github_blob rt params w) = Inr url \<longrightarrow>
            ((\<exists>headLabel title body.
                PullsCreate (baseRepo_of params) (baseBranch_of params r) headLabel title body
                  (Inr url) \<in> set (events (edit_github_blob rt params w)))
             \<longleftrightarrow> needsPr r b))
       \<and> (needsFork r, needsPr r b) \<in> {(False, False), (False, True), (True, True)}"
proof -
  obtain res evs w' where run: "edit_github_blob rt params w = (res, evs, w')"
    by (rule run_cases)
  note shapes = fetch_event_def commit_event_def pull_event_def
  note [simp] = ReposCreateFork_in_start
  have fork_in: "\<And>f ms rs answer. ReposCreateFork (baseRepo_of params) answer
        \<in> set (start_events rt params r b f ms rs) \<longleftrightarrow> needsFork r \<and> answer = Inr f"
    by (auto simp: start_events_def dest: in_ref_events)
  have pull_notin: "\<And>f ms rs B bb h t d x.
      PullsCreate B bb h t d x \<notin> set (start_events rt params r b f ms rs)"
    by (auto dest: commit_or_pull_notin_start)
  from run assms[unfolded run events_simp]
  have "((\<exists>answer. ReposCreateFork (baseRepo_of params) answer \<in> set evs) \<longleftrightarrow> needsFork r)
       \<and> (\<forall>url. res = Inr url \<longrightarrow>
            ((\<exists>headLabel title body.
                PullsCreate (baseRepo_of params) (baseBranch_of params r) headLabel title body
                  (Inr url) \<in> set evs)
             \<longleftrightarrow> needsPr r b))"
  proof (cases rule: run_shape_resolved)
    case (createFork_rejected e)
    then show ?thesis by auto
  next
    case (pull_opened f ms rs fd commitUrl url)
    then show ?thesis by (auto simp: shapes fork_in pull_notin)
  qed (auto simp: shapes fork_in pull_notin)
  then show ?thesis by (auto simp: run needsFork_def needsPr_def)
qed

theorem C9_fork_needs_pull_request_witness:
  "ReposGet \<lparr>owner = ''Homebrew'', repo = ''homebrew-core''\<rparr>
       (Inr \<lparr>default_branch = ''master'', permissions_push = False\<rparr>)
     \<in> set (events (edit_github_blob node (formula False False (Item hello) exclaim None)
                      (world 1700000000400 2)))
   \<and> ReposGetBranch \<lparr>owner = ''Homebrew'', repo = ''homebrew-core''\<rparr> ''master''
       (Inr \<lparr>protected = False, commit_sha = ''c0ffee''\<rparr>)
     \<in> set (events (edit_github_blob node (formula False False (Item hello) exclaim None)
                      (world 1700000000400 2)))
   \<and> needsFork \<lparr>default_branch = ''master'', permissions_push = False\<rparr>
   \<and> needsPr \<lparr>default_branch = ''master'', permissions_push = False\<rparr>
         \<lparr>protected = False, commit_sha = ''c0ffee''\<rparr>
   \<and> result (edit_github_blob node (formula False False (Item hello) exclaim None)
               (world 1700000000400 2))
       = Inr ''https://github.com/Homebrew/homebrew-core/pull/1''
   \<and> \<not> needsFork \<lparr>default_branch = ''master'', permissions_push = True\<rparr>
   \<and> needsPr \<lparr>default_branch = ''master'', permissions_push = True\<rparr>
         \<lparr>protected = True, commit_sha = ''c0ffee''\<rparr>
   \<and> result (edit_github_blob node (formula True True (Item hello) exclaim None)
               (world 1700000000400 0))
       = Inr ''https://github.com/Homebrew/homebrew-core/pull/1''
   \<and> \<not> needsPr \<lparr>default_branch = ''master'', permissions_push = True\<rparr>
         \<lparr>protected = False, commit_sha = ''c0ffee''\<rparr>
   \<and> result (edit_github_blob node (formula True False (Item hello) exclaim None)
               (world 1700000000400 0))
       = Inr ''https://github.com/Homebrew/homebrew-core/commit/1''"
proof -
  have h1: "ReposGet \<lparr>owner = ''Homebrew'', repo = ''homebrew-core''\<rparr>
       (Inr \<lparr>default_branch = ''master'', permissions_push = False\<rparr>)
     \<in> set (events (edit_github_blob node (formula False False (Item hello) exclaim None)
                      (world 1700000000400 2)))"
    by (simp add: run_fork)
  have h2: "ReposGetBranch \<lparr>owner = ''Homebrew'', repo = ''homebrew-core''\<rparr> ''master''
       (Inr \<lparr>protected = False, commit_sha = ''c0ffee''\<rparr>)
     \<in> set (events (edit_github_blob node (formula False False (Item hello) exclaim None)
                      (world 1700000000400 2)))"
    by (simp add: run_fork)
  note c9 = C9_fork_needs_pull_request[OF h1 h2]
  from c9 have nf: "needsFork \<lparr>default_branch = ''master'', permissions_push = False\<rparr>"
    by simp
  from c9 nf have np: "needsPr \<lparr>default_branch = ''master'', permissions_push = False\<rparr>
         \<lparr>protected = False, commit_sha = ''c0ffee''\<rparr>"
    by blast
  have res: "result (edit_github_blob node (formula False False (Item hello) exclaim None)
               (world 1700000000400 2))
       = Inr ''https://github.com/Homebrew/homebrew-core/pull/1''"
    by (simp add: run_fork)
  have p1: "\<not> needsFork \<lparr>default_branch = ''master'', permissions_push = True\<rparr>"
    by (simp add: needsFork_def)
  have p2: "needsPr \<lparr>default_branch = ''master'', permissions_push = True\<rparr>
         \<lparr>protected = True, commit_sha = ''c0ffee''\<rparr>"
    by (simp add: needsPr_def)
  have p3: "result (edit_github_blob node (formula True True (Item hello) exclaim None)
               (world 1700000000400 0))
       = Inr ''https://github.com/Homebrew/homebrew-core/pull/1''"
    by (simp add: run_protected)
  have d1: "\<not> needsPr \<lparr>default_branch = ''master'', permissions_push = True\<rparr>
         \<lparr>protected = False, commit_sha = ''c0ffee''\<rparr>"
    by (simp add: needsPr_def needsFork_def)
  have d2: "result (edit_github_blob node (formula True False (Item hello) exclaim None)
               (world 1700000000400 0))
       = Inr ''https://github.com/Homebrew/homebrew-core/commit/1''"
    by (simp add: run_direct)
  from h1 h2 nf np res p1 p2 p3 d1 d2 show ?thesis by (intro conjI)
qed

section \<open>The name of the head branch\<close>

text \<open>
  Claim C6, as amended. Once both look-ups are answered, every request of the run that
  names the head branch (the ref creation, the fetch, the commit and the head label
  \<open>owner:headBranch\<close> of the pull request) names the same one: when a pull request is
  needed it is \<open>update-\<close>, the base name of \<open>filePath\<close>, a hyphen, and the clock reading
  in seconds, rounded to the nearest second; otherwise it is the base branch. The owner
  in the head label is the owner of the head repository: the caller's \<open>owner\<close> with
  push permission, the owner of the created fork without. Two such names for the same
  file are equal exactly when the rounded seconds are equal.
\<close>

theorem C6_head_branch_name:
  assumes "ReposGet repo1 (Inr r) \<in> set (events (edit_github_blob rt params w))"
    and "ReposGetBranch repo2 branch2 (Inr b) \<in> set (events (edit_github_blob rt params w))"
  shows "(\<exists>ms f headBranch.
            headBranch = (if \<not> permissions_push r \<or> protected b
                          then ''update-'' @ basename rt (filePath params) @ ''-''
                                 @ Number_toString (Math_round (real_of_int ms / 1000))
                          else baseBranch_of params r)
          \<and> Math_round (real_of_int ms / 1000) = (ms + 500) div 1000
          \<and> (\<forall>headRepo ref commitSha answer.
                GitCreateRef headRepo ref commitSha answer
                  \<in> set (events (edit_github_blob rt params w))
                \<longrightarrow> ref = ''refs/heads/'' @ headBranch
                  \<and> DateNow ms \<in> set (events (edit_github_blob rt params w)))
          \<and> (\<forall>headRepo path ref answer.
                ReposGetContents headRepo path ref answer
                  \<in> set (events (edit_github_blob rt params w))
                \<longrightarrow> ref = headBranch
                  \<and> (\<not> permissions_push r \<or> protected b
                       \<longrightarrow> DateNow ms \<in> set (events (edit_github_blob rt params w))))
          \<and> (\<forall>headRepo path message newContent blobSha branch answer.
                ReposCreateOrUpdateFile headRepo path message newContent blobSha branch answer
                  \<in> set (events (edit_github_blob rt params w))
                \<longrightarrow> branch = headBranch)
          \<and> (\<forall>baseRepo baseBranch headLabel title body answer.
                PullsCreate baseRepo baseBranch headLabel title body answer
                  \<in> set (events (edit_github_blob rt params w))
                \<longrightarrow> headLabel = (if permissions_push r then owner params else owner_login f)
                                  @ '':'' @ headBranch
                  \<and> (\<not> permissions_push r \<or> protected b)
                  \<and> (\<not> permissions_push r
                       \<longrightarrow> ReposCreateFork (baseRepo_of params) (Inr f)
                             \<in> set (events (edit_github_blob rt params w)))
                  \<and> DateNow ms \<in> set (events (edit_github_blob rt params w))))
       \<and> (\<forall>s t. (''update-'' @ basename rt (filePath params) @ ''-'' @ Number_toString s
                  = ''update-'' @ basename rt (filePath params) @ ''-'' @ Number_toString t)
                \<longleftrightarrow> s = t)"
proof -
  obtain res evs w' where run: "edit_github_blob rt params w = (res, evs, w')"
    by (rule run_cases)
  note shapes = fetch_event_def commit_event_def pull_event_def
  have hb: "\<And>ms. headBranch_of rt params r b ms
      = (if \<not> permissions_push r \<or> protected b
         then ''update-'' @ basename rt (filePath params) @ ''-''
                @ Number_toString (Math_round (real_of_int ms / 1000))
         else baseBranch_of params r)"
    by (simp add: headBranch_of_def needsPr_def needsFork_def)
  have ho: "\<And>f. owner (headRepo_of params r f)
      = (if permissions_push r then owner params else owner_login f)"
    by (simp add: headRepo_of_def needsFork_def baseRepo_of_def)
  have start: "\<And>f ms rs e. e \<in> set (start_events rt params r b f ms rs) \<Longrightarrow>
      (\<forall>H ref s x. e = GitCreateRef H ref s x
          \<longrightarrow> ref = ''refs/heads/'' @ headBranch_of rt params r b ms \<and> needsPr r b)
      \<and> (\<forall>H p ref x. e \<noteq> ReposGetContents H p ref x)
      \<and> (\<forall>H p m c s br x. e \<noteq> ReposCreateOrUpdateFile H p m c s br x)
      \<and> (\<forall>B bb h t d x. e \<noteq> PullsCreate B bb h t d x)"
    by (auto dest!: in_start_events)
  have now_in: "\<And>f ms rs. needsPr r b \<Longrightarrow> DateNow ms \<in> set (start_events rt params r b f ms rs)"
    by (simp add: start_events_def)
  have fork_in: "\<And>f ms rs. needsFork r \<Longrightarrow>
      ReposCreateFork (baseRepo_of params) (Inr f) \<in> set (start_events rt params r b f ms rs)"
    by (simp add: start_events_def)
  have np: "needsPr r b \<longleftrightarrow> \<not> permissions_push r \<or> protected b"
    by (simp add: needsPr_def needsFork_def)
  have nf: "needsFork r \<longleftrightarrow> \<not> permissions_push r"
    by (simp add: needsFork_def)
  from run assms[unfolded run events_simp]
  have "\<exists>ms f. (\<forall>headRepo ref commitSha answer.
                GitCreateRef headRepo ref commitSha answer \<in> set evs
                \<longrightarrow> ref = ''refs/heads/'' @ headBranch_of rt params r b ms
                  \<and> DateNow ms \<in> set evs)
          \<and> (\<forall>headRepo path ref answer.
                ReposGetContents headRepo path ref answer \<in> set evs
                \<longrightarrow> ref = headBranch_of rt params r b ms
                  \<and> (needsPr r b \<longrightarrow> DateNow ms \<in> set evs))
          \<and> (\<forall>headRepo path message newContent blobSha branch answer.
                ReposCreateOrUpdateFile headRepo path message newContent blobSha branch answer
                  \<in> set evs
                \<longrightarrow> branch = headBranch_of rt params r b ms)
          \<and> (\<forall>baseRepo baseBranch headLabel title body answer.
                PullsCreate baseRepo baseBranch headLabel title body answer \<in> set evs
                \<longrightarrow> headLabel = owner (headRepo_of params r f) @ '':''
                                  @ headBranch_of rt params r b ms
                  \<and> needsPr r b
                  \<and> (needsFork r
                       \<longrightarrow> ReposCreateFork (baseRepo_of params) (Inr f) \<in> set evs)
                  \<and> DateNow ms \<in> set evs)"
  proof (cases rule: run_shape_resolved)
    case (createFork_rejected e)
    then show ?thesis by auto
  next
    case (createRef_rejected f ms rs e)
    then show ?thesis
      by (intro exI[of _ ms] exI[of _ f]) (auto simp: shapes now_in fork_in dest: start)
  next
    case (getContents_rejected f ms rs e)
    then show ?thesis
      by (intro exI[of _ ms] exI[of _ f]) (auto simp: shapes now_in fork_in dest: start)
  next
    case (directory f ms rs entries)
    then show ?thesis
      by (intro exI[of _ ms] exI[of _ f]) (auto simp: shapes now_in fork_in dest: start)
  next
    case (unchanged f ms rs fd)
    then show ?thesis
      by (intro exI[of _ ms] exI[of _ f]) (auto simp: shapes now_in fork_in dest: start)
  next
    case (commit_rejected f ms rs fd e)
    then show ?thesis
      by (intro exI[of _ ms] exI[of _ f]) (auto simp: shapes now_in fork_in dest: start)
  next
    case (committed f ms rs fd url)
    then show ?thesis
      by (intro exI[of _ ms] exI[of _ f]) (auto simp: shapes now_in fork_in dest: start)
  next
    case (pull_rejected f ms rs fd commitUrl e)
    then show ?thesis
      by (intro exI[of _ ms] exI[of _ f]) (auto simp: shapes now_in fork_in dest: start)
  next
    case (pull_opened f ms rs fd commitUrl url)
    then show ?thesis
      by (intro exI[of _ ms] exI[of _ f]) (auto simp: shapes now_in fork_in dest: start)
  qed
  then obtain ms f where all:
      "(\<forall>headRepo ref commitSha answer.
                GitCreateRef headRepo ref commitSha answer \<in> set evs
                \<longrightarrow> ref = ''refs/heads/'' @ headBranch_of rt params r b ms
                  \<and> DateNow ms \<in> set evs)
        \<and> (\<forall>headRepo path ref answer.
                ReposGetContents headRepo path ref answer \<in> set evs
                \<longrightarrow> ref = headBranch_of rt params r b ms
                  \<and> (needsPr r b \<longrightarrow> DateNow ms \<in> set evs))
        \<and> (\<forall>headRepo path message newContent blobSha branch answer.
                ReposCreateOrUpdateFile headRepo path message newContent blobSha branch answer
                  \<in> set evs
                \<longrightarrow> branch = headBranch_of rt params r b ms)
        \<and> (\<forall>baseRepo baseBranch headLabel title body answer.
                PullsCreate baseRepo baseBranch headLabel title body answer \<in> set evs
                \<longrightarrow> headLabel = owner (headRepo_of params r f) @ '':''
                                  @ headBranch_of rt params r b ms
                  \<and> needsPr r b
                  \<and> (needsFork r
                       \<longrightarrow> ReposCreateFork (baseRepo_of params) (Inr f) \<in> set evs)
                  \<and> DateNow ms \<in> set evs)"
    by (elim exE) (rule that)
  note ms = all[THEN conjunct1] all[THEN conjunct2, THEN conjunct1]
    all[THEN conjunct2, THEN conjunct2, THEN conjunct1]
    all[THEN conjunct2, THEN conjunct2, THEN conjunct2]
  have "\<exists>ms f headBranch.
            headBranch = (if \<not> permissions_push r \<or> protected b
                          then ''update-'' @ basename rt (filePath params) @ ''-''
                                 @ Number_toString (Math_round (real_of_int ms / 1000))
                          else baseBranch_of params r)
          \<and> Math_round (real_of_int ms / 1000) = (ms + 500) div 1000
          \<and> (\<forall>headRepo ref commitSha answer.
                GitCreateRef headRepo ref commitSha answer \<in> set evs
                \<longrightarrow> ref = ''refs/heads/'' @ headBranch \<and> DateNow ms \<in> set evs)
          \<and> (\<forall>headRepo path ref answer.
                ReposGetContents headRepo path ref answer \<in> set evs
                \<longrightarrow> ref = headBranch
                  \<and> (\<not> permissions_push r \<or> protected b \<longrightarrow> DateNow ms \<in> set evs))
          \<and> (\<forall>headRepo path message newContent blobSha branch answer.
                ReposCreateOrUpdateFile headRepo path message newContent blobSha branch answer
                  \<in> set evs
                \<longrightarrow> branch = headBranch)
          \<and> (\<forall>baseRepo baseBranch headLabel title body answer.
                PullsCreate baseRepo baseBranch headLabel title body answer \<in> set evs
                \<longrightarrow> headLabel = (if permissions_push r then owner params else owner_login f)
                                  @ '':'' @ headBranch
                  \<and> (\<not> permissions_push r \<or> protected b)
                  \<and> (\<not> permissions_push r
                       \<longrightarrow> ReposCreateFork (baseRepo_of params) (Inr f) \<in> set evs)
                  \<and> DateNow ms \<in> set evs)"
    using ms[unfolded np nf ho hb] Math_round_ms[of ms]
    by (intro exI[of _ ms] exI[of _ f] exI[of _ "headBranch_of rt params r b ms"], unfold hb)
      blast
  moreover have "\<forall>s t. (''update-'' @ basename rt (filePath params) @ ''-'' @ Number_toString s
                  = ''update-'' @ basename rt (filePath params) @ ''-'' @ Number_toString t)
                \<longleftrightarrow> s = t"
    by (auto dest: Number_toString_inj)
  ultimately show ?thesis unfolding run events_simp by (rule conjI)
qed

theorem C6_head_branch_name_witness:
  "ReposGet \<lparr>owner = ''Homebrew'', repo = ''homebrew-core''\<rparr>
       (Inr \<lparr>default_branch = ''master'', permissions_push = True\<rparr>)
     \<in> set (events (edit_github_blob node (formula True True (Item hello) exclaim None)
                      (world 1700000000400 0)))
   \<and> ReposGetBranch \<lparr>owner = ''Homebrew'', repo = ''homebrew-core''\<rparr> ''master''
       (Inr \<lparr>protected = True, commit_sha = ''c0ffee''\<rparr>)
     \<in> set (events (edit_github_blob node (formula True True (Item hello) exclaim None)
                      (world 1700000000400 0)))
   \<and> DateNow 1700000000400
     \<in> set (events (edit_github_blob node (formula True True (Item hello) exclaim None)
                      (world 1700000000400 0)))
   \<and> GitCreateRef \<lparr>owner = ''Homebrew'', repo = ''homebrew-core''\<rparr>
       ''refs/heads/update-hello.rb-1700000000'' ''c0ffee'' (Inr ())
     \<in> set (events (edit_github_blob node (formula True True (Item hello) exclaim None)
                      (world 1700000000400 0)))
   \<and> ReposGetContents \<lparr>owner = ''Homebrew'', repo = ''homebrew-core''\<rparr>
       ''Formula/hello.rb'' ''update-hello.rb-1700000000'' (Inr (Item hello))
     \<in> set (events (edit_github_blob node (formula True True (Item hello) exclaim None)
                      (world 1700000000400 0)))
   \<and> ReposCreateOrUpdateFile \<lparr>owner = ''Homebrew'', repo = ''homebrew-core''\<rparr>
       ''Formula/hello.rb'' ''Update Formula/hello.rb'' ''aGVsbG8h'' ''abc''
       ''update-hello.rb-1700000000''
       (Inr ''https://github.com/Homebrew/homebrew-core/commit/1'')
     \<in> set (events (edit_github_blob node (formula True True (Item hello) exclaim None)
                      (world 1700000000400 0)))
   \<and> PullsCreate \<lparr>owner = ''Homebrew'', repo = ''homebrew-core''\<rparr> ''master''
       ''Homebrew:update-hello.rb-1700000000'' ''Update Formula/hello.rb'' []
       (Inr ''https://github.com/Homebrew/homebrew-core/pull/1'')
     \<in> set (events (edit_github_blob node (formula True True (Item hello) exclaim None)
                      (world 1700000000400 0)))
   \<and> PullsCreate \<lparr>owner = ''Homebrew'', repo = ''homebrew-core''\<rparr> ''master''
       ''bot:update-hello.rb-1700000000'' ''Update Formula/hello.rb'' []
       (Inr ''https://github.com/Homebrew/homebrew-core/pull/1'')
     \<in> set (events (edit_github_blob node (formula False False (Item hello) exclaim None)
                      (world 1700000000400 2)))
   \<and> ReposGetContents \<lparr>owner = ''Homebrew'', repo = ''homebrew-core''\<rparr>
       ''Formula/hello.rb'' ''master'' (Inr (Item hello))
     \<in> set (events (edit_github_blob node (formula True False (Item hello) exclaim None)
                      (world 1700000000400 0)))"
proof -
  have h1: "ReposGet \<lparr>owner = ''Homebrew'', repo = ''homebrew-core''\<rparr>
       (Inr \<lparr>default_branch = ''master'', permissions_push = True\<rparr>)
     \<in> set (events (edit_github_blob node (formula True True (Item hello) exclaim None)
                      (world 1700000000400 0)))"
    by (simp add: run_protected)
  have h2: "ReposGetBranch \<lparr>owner = ''Homebrew'', repo = ''homebrew-core''\<rparr> ''master''
       (Inr \<lparr>protected = True, commit_sha = ''c0ffee''\<rparr>)
     \<in> set (events (edit_github_blob node (formula True True (Item hello) exclaim None)
                      (world 1700000000400 0)))"
    by (simp add: run_protected)
  note c6 = C6_head_branch_name[OF h1 h2]
  have h3: "DateNow 1700000000400
     \<in> set (events (edit_github_blob node (formula True True (Item hello) exclaim None)
                      (world 1700000000400 0)))"
    by (simp add: run_protected)
  have h4: "GitCreateRef \<lparr>owner = ''Homebrew'', repo = ''homebrew-core''\<rparr>
       ''refs/heads/update-hello.rb-1700000000'' ''c0ffee'' (Inr ())
     \<in> set (events (edit_github_blob node (formula True True (Item hello) exclaim None)
                      (world 1700000000400 0)))"
    by (simp add: run_protected)
  have h5: "ReposGetContents \<lparr>owner = ''Homebrew'', repo = ''homebrew-core''\<rparr>
       ''Formula/hello.rb'' ''update-hello.rb-1700000000'' (Inr (Item hello))
     \<in> set (events (edit_github_blob node (formula True True (Item hello) exclaim None)
                      (world 1700000000400 0)))"
    by (simp add: run_protected)
  have h6: "ReposCreateOrUpdateFile \<lparr>owner = ''Homebrew'', repo = ''homebrew-core''\<rparr>
       ''Formula/hello.rb'' ''Update Formula/hello.rb'' ''aGVsbG8h'' ''abc''
       ''update-hello.rb-1700000000''
       (Inr ''https://github.com/Homebrew/homebrew-core/commit/1'')
     \<in> set (events (edit_github_blob node (formula True True (Item hello) exclaim None)
                      (world 1700000000400 0)))"
    by (simp add: run_protected)
  have h7: "PullsCreate \<lparr>owner = ''Homebrew'', repo = ''homebrew-core''\<rparr> ''master''
       ''Homebrew:update-hello.rb-1700000000'' ''Update Formula/hello.rb'' []
       (Inr ''https://github.com/Homebrew/homebrew-core/pull/1'')
     \<in> set (events (edit_github_blob node (formula True True (Item hello) exclaim None)
                      (world 1700000000400 0)))"
    by (simp add: run_protected)
  have h8: "PullsCreate \<lparr>owner = ''Homebrew'', repo = ''homebrew-core''\<rparr> ''master''
       ''bot:update-hello.rb-1700000000'' ''Update Formula/hello.rb'' []
       (Inr ''https://github.com/Homebrew/homebrew-core/pull/1'')
     \<in> set (events (edit_github_blob node (formula False False (Item hello) exclaim None)
                      (world 1700000000400 2)))"
    by (simp add: run_fork)
  have h9: "ReposGetContents \<lparr>owner = ''Homebrew'', repo = ''homebrew-core''\<rparr>
       ''Formula/hello.rb'' ''master'' (Inr (Item hello))
     \<in> set (events (edit_github_blob node (formula True False (Item hello) exclaim None)
                      (world 1700000000400 0)))"
    by (simp add: run_direct)
  from c6 h1 h2 h3 h4 h5 h6 h7 h8 h9 show ?thesis by (intro conjI)
qed

text \<open>
  The claim as stated, that the name is unique across concurrent runs, is false: two
  runs on the same file whose clock readings round to the same second ask for the same
  ref.
\<close>

theorem C6_same_second_same_branch_counterexample:
  "GitCreateRef \<lparr>owner = ''bot'', repo = ''homebrew-core''\<rparr>
       ''refs/heads/update-hello.rb-1700000000'' ''c0ffee'' (Inr ())
     \<in> set (events (edit_github_blob node (formula False False (Item hello) id None)
                      (world 1700000000400 0)))
   \<and> GitCreateRef \<lparr>owner = ''bot'', repo = ''homebrew-core''\<rparr>
       ''refs/heads/update-hello.rb-1700000000'' ''c0ffee'' (Inr ())
     \<in> set (events (edit_github_blob node (formula False False (Item hello) id None)
                      (world 1700000000100 0)))
   \<and> world 1700000000400 0 \<noteq> world 1700000000100 0"
  by (simp add: run_fork_unchanged run_fork_unchanged_same_second) (simp add: world_def)

end
